theory Spec2Isabelle
  imports Main "HOL-Library.Signed_Division" "HOL-Library.Multiset"
begin

section \<open>Conversion of DIA sparse matrices to COO, CSR and ELL\<close>

text \<open>
  The development embeds \<^verbatim>\<open>cusp/system/detail/generic/conversions/dia_to_other.h\<close>.
  Sizes (\<^verbatim>\<open>size_t\<close>) are natural numbers. \<^verbatim>\<open>IndexType\<close> is a signed integral
  template parameter and is modelled by the integers; the theorems therefore speak
  about matrices whose index arithmetic stays inside the range of the index type.
  \<^verbatim>\<open>ValueType\<close> is any type with a zero: the converters only compare values with
  \<^verbatim>\<open>ValueType(0)\<close> and copy them.
\<close>

subsection \<open>Containers\<close>

text \<open>
  Writing past the end of a destination array is undefined behaviour in the source; the
  model makes it the one error a conversion can end with.
\<close>

datatype error = Out_of_range

text \<open>
  Modelled from the spec: the declaration of \<^verbatim>\<open>cusp::array2d\<close> is not part of the
  sources. The converters read its members \<^verbatim>\<open>num_rows\<close>, \<^verbatim>\<open>num_cols\<close>,
  \<^verbatim>\<open>num_entries\<close>, \<^verbatim>\<open>pitch\<close> and \<^verbatim>\<open>values\<close>; the spec describes it as a dense
  2-D block stored column-major with a row stride \<open>pitch\<close>. The members are kept as
  independent fields; \<open>dia_wf\<close> below says how they are related in a valid source.
\<close>

record 'v array2d =
  a2d_num_rows :: nat
  a2d_num_cols :: nat
  a2d_num_entries :: nat
  pitch :: nat
  a2d_values :: "'v list"

text \<open>
  Modelled from the spec: the declarations of the four matrix formats are not part of
  the sources. The fields are the members the converters read and write
  (\<^verbatim>\<open>src.num_rows\<close>, \<^verbatim>\<open>src.diagonal_offsets\<close>, \<^verbatim>\<open>src.values.pitch\<close>,
  \<^verbatim>\<open>dst.row_indices\<close>, \<^verbatim>\<open>dst.row_offsets\<close>, \<^verbatim>\<open>dst.column_indices.values\<close>, ...),
  as the spec's data model lists them.
\<close>

record 'v dia_matrix =
  dia_num_rows :: nat
  dia_num_cols :: nat
  dia_num_entries :: nat
  diagonal_offsets :: "int list"
  dia_values :: "'v array2d"

record 'v coo_matrix =
  coo_num_rows :: nat
  coo_num_cols :: nat
  coo_num_entries :: nat
  coo_row_indices :: "int list"
  coo_column_indices :: "int list"
  coo_values :: "'v list"

record 'v csr_matrix =
  csr_num_rows :: nat
  csr_num_cols :: nat
  csr_num_entries :: nat
  csr_row_offsets :: "int list"
  csr_column_indices :: "int list"
  csr_values :: "'v list"

record 'v ell_matrix =
  ell_num_rows :: nat
  ell_num_cols :: nat
  ell_num_entries :: nat
  ell_column_indices :: "int array2d"
  ell_values :: "'v array2d"

text \<open>
  Modelled from the spec: \<^verbatim>\<open>coo_matrix::resize\<close> is not part of the sources. Following
  the spec, the conversion allocates a fresh destination with exactly \<open>num_entries\<close>
  slots in each array; a fresh slot holds the value-initialised element, zero.
\<close>

definition coo_resize :: "nat \<Rightarrow> nat \<Rightarrow> nat \<Rightarrow> ('v::zero) coo_matrix" where
  "coo_resize nr nc ne =
     \<lparr>coo_num_rows = nr, coo_num_cols = nc, coo_num_entries = ne,
      coo_row_indices = replicate ne 0, coo_column_indices = replicate ne 0,
      coo_values = replicate ne 0\<rparr>"

text \<open>
  Modelled from the spec: \<^verbatim>\<open>csr_matrix::resize\<close> is not part of the sources. As for COO,
  with \<open>num_rows + 1\<close> row offsets.
\<close>

definition csr_resize :: "nat \<Rightarrow> nat \<Rightarrow> nat \<Rightarrow> ('v::zero) csr_matrix" where
  "csr_resize nr nc ne =
     \<lparr>csr_num_rows = nr, csr_num_cols = nc, csr_num_entries = ne,
      csr_row_offsets = replicate (nr + 1) 0, csr_column_indices = replicate ne 0,
      csr_values = replicate ne 0\<rparr>"

text \<open>
  Modelled from the spec: \<^verbatim>\<open>array2d::resize\<close> is not part of the sources. A fresh
  column-major block of \<open>pitch \<times> num_cols\<close> zero slots.
\<close>

definition array2d_resize :: "nat \<Rightarrow> nat \<Rightarrow> nat \<Rightarrow> ('v::zero) array2d" where
  "array2d_resize nr nc p =
     \<lparr>a2d_num_rows = nr, a2d_num_cols = nc, a2d_num_entries = nr * nc, pitch = p,
      a2d_values = replicate (p * nc) 0\<rparr>"

text \<open>
  Modelled from the spec: \<^verbatim>\<open>ell_matrix::resize\<close> is not part of the sources. Following
  the spec, ELL allocates a fixed-width block sized to the source's diagonal count and
  pitch, for the column indices and for the values.
\<close>

definition ell_resize :: "nat \<Rightarrow> nat \<Rightarrow> nat \<Rightarrow> nat \<Rightarrow> nat \<Rightarrow> ('v::zero) ell_matrix" where
  "ell_resize nr nc ne per_row p =
     \<lparr>ell_num_rows = nr, ell_num_cols = nc, ell_num_entries = ne,
      ell_column_indices = array2d_resize nr per_row p,
      ell_values = array2d_resize nr per_row p\<rparr>"

subsection \<open>Functors\<close>

text \<open>The three functors that \<^verbatim>\<open>dia_to_other.h\<close> defines itself.\<close>

definition valid_ell_functor :: "nat \<Rightarrow> int \<Rightarrow> int" where
  "valid_ell_functor num_cols col = (if col \<ge> 0 \<and> col < int num_cols then col else - 1)"

definition is_valid_ell_index :: "int \<Rightarrow> int \<times> int \<Rightarrow> bool" where
  "is_valid_ell_index num_rows t = (case t of (i, j) \<Rightarrow> i < num_rows \<and> j \<noteq> - 1)"

definition is_valid_coo_index :: "int \<Rightarrow> int \<Rightarrow> int \<times> int \<times> ('v::zero) \<Rightarrow> bool" where
  "is_valid_coo_index num_rows num_cols t =
     (case t of (i, j, v) \<Rightarrow>
        (i > - 1 \<and> i < num_rows) \<and> (j > - 1 \<and> j < num_cols) \<and> v \<noteq> 0)"

text \<open>
  The functors below come from \<^verbatim>\<open>cusp/detail/functional.h\<close> and
  \<^verbatim>\<open>cusp/detail/format_utils.h\<close>, which are not part of the sources. Division and
  remainder are those of C++, truncating towards zero.
\<close>

text \<open>
  Modelled from the spec: \<^verbatim>\<open>modulus_value\<close> is not part of the sources. The spec
  derives \<open>row = k mod pitch\<close>.
\<close>

definition modulus_value :: "int \<Rightarrow> int \<Rightarrow> int" where
  "modulus_value v x = x smod v"

text \<open>
  Modelled from the spec: \<^verbatim>\<open>divide_value\<close> is not part of the sources. The spec
  derives \<open>diag = k div pitch\<close>.
\<close>

definition divide_value :: "int \<Rightarrow> int \<Rightarrow> int" where
  "divide_value v x = x sdiv v"

text \<open>
  Modelled from the spec: \<^verbatim>\<open>sum_tuple_functor\<close> is not part of the sources. The spec
  derives \<open>column = diagonal_offsets[diag] + row\<close>, the sum of the two zipped components.
\<close>

definition sum_tuple_functor :: "int \<times> int \<Rightarrow> int" where
  "sum_tuple_functor t = fst t + snd t"

text \<open>
  Modelled from the spec: \<^verbatim>\<open>logical_to_other_physical_functor\<close> is not part of the
  sources. The converters instantiate it from \<^verbatim>\<open>cusp::row_major\<close> to
  \<^verbatim>\<open>cusp::column_major\<close>, and the spec gathers the value at the row-major-remapped
  position in the column-major block: the logical index is read row-major
  (\<open>i = n / num_cols\<close>, \<open>j = n % num_cols\<close>) and sent to the column-major physical
  position \<open>j * pitch + i\<close>.
\<close>

definition logical_to_other_physical_functor :: "int \<Rightarrow> int \<Rightarrow> int \<Rightarrow> int \<Rightarrow> int" where
  "logical_to_other_physical_functor num_rows num_cols p linear_index =
     (let i = linear_index sdiv num_cols; j = linear_index smod num_cols in j * p + i)"

subsection \<open>The iterator pipeline shared by the converters\<close>

text \<open>
  \<open>row_indices_begin\<close>, \<open>gather_indices_begin\<close>, \<open>offsets_begin\<close> and
  \<open>column_indices_begin\<close> at position \<open>k\<close> of the counting iterator, as the three
  converters build them.
\<close>

definition row_indices_begin :: "'v dia_matrix \<Rightarrow> int \<Rightarrow> int" where
  "row_indices_begin src k = modulus_value (int (pitch (dia_values src))) k"

definition gather_indices_begin :: "'v dia_matrix \<Rightarrow> int \<Rightarrow> int" where
  "gather_indices_begin src k = divide_value (int (pitch (dia_values src))) k"

definition offsets_begin :: "'v dia_matrix \<Rightarrow> int \<Rightarrow> int" where
  "offsets_begin src k = diagonal_offsets src ! nat (gather_indices_begin src k)"

definition column_indices_begin :: "'v dia_matrix \<Rightarrow> int \<Rightarrow> int" where
  "column_indices_begin src k = sum_tuple_functor (offsets_begin src k, row_indices_begin src k)"

text \<open>
  The zip iterator over rows, columns and stored values at physical position \<open>k\<close>, and
  the permutation iterator that reads it at the remapped position of the logical
  index \<open>n\<close>.
\<close>

definition zipped_at :: "'v dia_matrix \<Rightarrow> int \<Rightarrow> int \<times> int \<times> 'v" where
  "zipped_at src k =
     (row_indices_begin src k, column_indices_begin src k, a2d_values (dia_values src) ! nat k)"

definition permuted_at :: "'v dia_matrix \<Rightarrow> nat \<Rightarrow> int \<times> int \<times> 'v" where
  "permuted_at src n =
     zipped_at src
       (logical_to_other_physical_functor (int (a2d_num_rows (dia_values src)))
          (int (a2d_num_cols (dia_values src))) (int (pitch (dia_values src))) (int n))"

text \<open>
  The first \<^verbatim>\<open>thrust::copy\<close> of the COO and CSR converters fills \<open>temp0\<close>, \<open>temp1\<close>,
  \<open>temp2\<close> (kept zipped here) with the first \<open>src.values.num_entries\<close> permuted triples.
\<close>

definition dia_entries :: "'v dia_matrix \<Rightarrow> (int \<times> int \<times> 'v) list" where
  "dia_entries src = map (permuted_at src) [0..<a2d_num_entries (dia_values src)]"

text \<open>
  \<^verbatim>\<open>thrust::copy_if\<close> keeps the elements that satisfy the predicate, in their order,
  and writes them from the start of the output range; the slots behind them are not
  touched. Writing more elements than the output holds is undefined in the source and
  is the error \<open>Out_of_range\<close> here.
\<close>

definition write_front :: "'a list \<Rightarrow> 'a list \<Rightarrow> 'a list" where
  "write_front xs out = xs @ drop (length xs) out"

definition copy_to :: "'a list \<Rightarrow> 'a list \<Rightarrow> error + 'a list" where
  "copy_to xs out = (if length xs \<le> length out then Inr (write_front xs out) else Inl Out_of_range)"

definition copy_if_zip3 ::
  "('a \<times> 'b \<times> 'c \<Rightarrow> bool) \<Rightarrow> ('a \<times> 'b \<times> 'c) list \<Rightarrow> 'a list \<Rightarrow> 'b list \<Rightarrow> 'c list
     \<Rightarrow> error + ('a list \<times> 'b list \<times> 'c list)" where
  "copy_if_zip3 pred xs out0 out1 out2 =
     (let kept = filter pred xs in
      if length kept \<le> length out0 \<and> length kept \<le> length out1 \<and> length kept \<le> length out2
      then Inr (write_front (map fst kept) out0,
                write_front (map (fst \<circ> snd) kept) out1,
                write_front (map (snd \<circ> snd) kept) out2)
      else Inl Out_of_range)"

text \<open>The triples that pass the filter of the COO and CSR converters.\<close>

definition coo_survivors :: "('v::zero) dia_matrix \<Rightarrow> (int \<times> int \<times> 'v) list" where
  "coo_survivors src =
     filter (is_valid_coo_index (int (dia_num_rows src)) (int (dia_num_cols src))) (dia_entries src)"

subsection \<open>DIA to COO\<close>

definition convert_dia_coo :: "('v::zero) dia_matrix \<Rightarrow> error + 'v coo_matrix" where
  "convert_dia_coo src =
     (let dst = coo_resize (dia_num_rows src) (dia_num_cols src) (dia_num_entries src) in
      if dia_num_entries src = 0 then Inr dst
      else
        (case copy_if_zip3 (is_valid_coo_index (int (dia_num_rows src)) (int (dia_num_cols src)))
                (dia_entries src) (coo_row_indices dst) (coo_column_indices dst) (coo_values dst) of
           Inl e \<Rightarrow> Inl e
         | Inr (rows, cols, vals) \<Rightarrow>
             Inr (dst\<lparr>coo_row_indices := rows, coo_column_indices := cols, coo_values := vals\<rparr>)))"

subsection \<open>DIA to CSR\<close>

text \<open>
  Modelled from the spec: \<^verbatim>\<open>cusp::detail::indices_to_offsets\<close> is not part of the
  sources. The spec describes it as a counts-to-prefix-sum transform in which every
  entry contributes one unit to its row's count: offset \<open>r\<close> is the number of row
  indices below \<open>r\<close>, one offset for every slot of the offsets array.
\<close>

definition indices_to_offsets :: "int list \<Rightarrow> int list \<Rightarrow> int list" where
  "indices_to_offsets indices offsets =
     map (\<lambda>r. int (length (filter (\<lambda>i. i < int r) indices))) [0..<length offsets]"

definition convert_dia_csr :: "('v::zero) dia_matrix \<Rightarrow> error + 'v csr_matrix" where
  "convert_dia_csr src =
     (let dst = csr_resize (dia_num_rows src) (dia_num_cols src) (dia_num_entries src) in
      if dia_num_entries src = 0 then Inr dst
      else
        (case copy_if_zip3 (is_valid_coo_index (int (dia_num_rows src)) (int (dia_num_cols src)))
                (dia_entries src) (replicate (dia_num_entries src) 0)
                (csr_column_indices dst) (csr_values dst) of
           Inl e \<Rightarrow> Inl e
         | Inr (row_indices, cols, vals) \<Rightarrow>
             Inr (dst\<lparr>csr_row_offsets := indices_to_offsets row_indices (csr_row_offsets dst),
                      csr_column_indices := cols, csr_values := vals\<rparr>)))"

subsection \<open>DIA to ELL\<close>

text \<open>
  The column indices are copied without the permutation: slot \<open>k\<close> of the destination
  receives \<open>valid_ell_functor\<close> of the column derived at position \<open>k\<close>, for the first
  \<open>src.values.num_entries\<close> positions. The value block is copied whole.
\<close>

definition convert_dia_ell :: "('v::zero) dia_matrix \<Rightarrow> error + 'v ell_matrix" where
  "convert_dia_ell src =
     (let dst = ell_resize (dia_num_rows src) (dia_num_cols src) (dia_num_entries src)
                  (length (diagonal_offsets src)) (pitch (dia_values src)) in
      if dia_num_entries src = 0 then Inr dst
      else
        (case copy_to (map (\<lambda>k. valid_ell_functor (dia_num_cols src) (column_indices_begin src (int k)))
                         [0..<a2d_num_entries (dia_values src)])
                (a2d_values (ell_column_indices dst)) of
           Inl e \<Rightarrow> Inl e
         | Inr cols \<Rightarrow>
             (case copy_to (a2d_values (dia_values src)) (a2d_values (ell_values dst)) of
                Inl e \<Rightarrow> Inl e
              | Inr vals \<Rightarrow>
                  Inr (dst\<lparr>ell_column_indices := (ell_column_indices dst)\<lparr>a2d_values := cols\<rparr>,
                           ell_values := (ell_values dst)\<lparr>a2d_values := vals\<rparr>\<rparr>))))"

subsection \<open>Structural validity\<close>

text \<open>
  The spec's structural validity of a DIA source: one offset per stored diagonal, a
  pitch of at least \<open>num_rows\<close>, a value block of \<open>pitch \<times> num_diagonals\<close> slots with
  the rows of the matrix. The member \<open>values.num_entries\<close> is the number of positions
  the converters visit; since the declaration of the block is not part of the sources,
  it is only required to cover every logical slot (\<open>num_rows \<times> num_diagonals\<close>) and to
  stay inside the block (\<open>pitch \<times> num_diagonals\<close>, the spec's range of the linear
  index).
\<close>

definition dia_wf :: "'v dia_matrix \<Rightarrow> bool" where
  "dia_wf src \<longleftrightarrow>
     length (diagonal_offsets src) = a2d_num_cols (dia_values src) \<and>
     a2d_num_rows (dia_values src) = dia_num_rows src \<and>
     dia_num_rows src \<le> pitch (dia_values src) \<and>
     length (a2d_values (dia_values src)) = pitch (dia_values src) * a2d_num_cols (dia_values src) \<and>
     a2d_num_rows (dia_values src) * a2d_num_cols (dia_values src) \<le> a2d_num_entries (dia_values src) \<and>
     a2d_num_entries (dia_values src) \<le> pitch (dia_values src) * a2d_num_cols (dia_values src)"

subsection \<open>Reading the results\<close>

text \<open>
  The triple the spec derives for the slot of row \<open>row\<close> on stored diagonal \<open>diag\<close>:
  the row, the column \<open>diagonal_offsets[diag] + row\<close>, and the value stored for the
  slot in the column-major block.
\<close>

definition dia_slot :: "'v dia_matrix \<Rightarrow> nat \<Rightarrow> nat \<Rightarrow> int \<times> int \<times> 'v" where
  "dia_slot src row diag =
     (int row, diagonal_offsets src ! diag + int row,
      a2d_values (dia_values src) ! (diag * pitch (dia_values src) + row))"

text \<open>
  The spec's enumeration of the slots by the linear index \<open>k\<close> over
  \<open>[0, pitch \<times> num_diagonals)\<close> with \<open>row = k mod pitch\<close> and \<open>diag = k div pitch\<close>
  (diagonal-major, row-minor), and the enumeration row by row (row-major: rows outside,
  diagonals inside).
\<close>

definition k_enumeration :: "'v dia_matrix \<Rightarrow> (int \<times> int \<times> 'v) list" where
  "k_enumeration src =
     map (\<lambda>k. dia_slot src (k mod pitch (dia_values src)) (k div pitch (dia_values src)))
       [0..<pitch (dia_values src) * length (diagonal_offsets src)]"

definition row_major_enumeration :: "'v dia_matrix \<Rightarrow> (int \<times> int \<times> 'v) list" where
  "row_major_enumeration src =
     concat (map (\<lambda>row. map (dia_slot src row) [0..<length (diagonal_offsets src)])
               [0..<dia_num_rows src])"

text \<open>The entries of a COO matrix as triples, slot by slot.\<close>

definition coo_triples :: "'v coo_matrix \<Rightarrow> (int \<times> int \<times> 'v) list" where
  "coo_triples dst = zip (coo_row_indices dst) (zip (coo_column_indices dst) (coo_values dst))"

text \<open>
  Expanding row offsets back to one row index per entry: row \<open>r\<close> owns the entries from
  \<open>offsets[r]\<close> up to \<open>offsets[r + 1]\<close>. The entries of a CSR matrix as triples use the
  expanded row indices.
\<close>

definition offsets_to_indices :: "int list \<Rightarrow> int list" where
  "offsets_to_indices offsets =
     concat (map (\<lambda>r. replicate (nat (offsets ! (r + 1) - offsets ! r)) (int r))
               [0..<length offsets - 1])"

definition csr_triples :: "'v csr_matrix \<Rightarrow> (int \<times> int \<times> 'v) list" where
  "csr_triples dst =
     zip (offsets_to_indices (csr_row_offsets dst)) (zip (csr_column_indices dst) (csr_values dst))"

subsection \<open>Example matrices\<close>

text \<open>
  A \<open>3 \<times> 3\<close> matrix with one diagonal at offset \<open>+1\<close>, pitch \<open>3\<close> and stored values
  \<open>[1, 2, 3]\<close>; the declared number of entries is a parameter.
\<close>

definition overhang :: "nat \<Rightarrow> int dia_matrix" where
  "overhang e =
     \<lparr>dia_num_rows = 3, dia_num_cols = 3, dia_num_entries = e, diagonal_offsets = [1],
      dia_values = \<lparr>a2d_num_rows = 3, a2d_num_cols = 1, a2d_num_entries = 3, pitch = 3,
                    a2d_values = [1, 2, 3]\<rparr>\<rparr>"

text \<open>
  A \<open>2 \<times> 2\<close> matrix with the main diagonal stored as \<open>[0, 5]\<close>: two stored entries,
  the first an explicit zero at the valid coordinate \<open>(0, 0)\<close>.
\<close>

definition explicit_zero :: "int dia_matrix" where
  "explicit_zero =
     \<lparr>dia_num_rows = 2, dia_num_cols = 2, dia_num_entries = 2, diagonal_offsets = [0],
      dia_values = \<lparr>a2d_num_rows = 2, a2d_num_cols = 1, a2d_num_entries = 2, pitch = 2,
                    a2d_values = [0, 5]\<rparr>\<rparr>"

text \<open>
  A \<open>3 \<times> 3\<close> matrix with no entries that keeps one all-zero diagonal at offset \<open>+1\<close>.
\<close>

definition empty_diagonal :: "int dia_matrix" where
  "empty_diagonal =
     \<lparr>dia_num_rows = 3, dia_num_cols = 3, dia_num_entries = 0, diagonal_offsets = [1],
      dia_values = \<lparr>a2d_num_rows = 3, a2d_num_cols = 1, a2d_num_entries = 3, pitch = 3,
                    a2d_values = [0, 0, 0]\<rparr>\<rparr>"

text \<open>
  A \<open>2 \<times> 2\<close> matrix with the main diagonal \<open>[1, 2]\<close> and the diagonal at offset \<open>+1\<close>
  holding \<open>3\<close> (its second slot is padding): three entries.
\<close>

definition two_diagonals :: "int dia_matrix" where
  "two_diagonals =
     \<lparr>dia_num_rows = 2, dia_num_cols = 2, dia_num_entries = 3, diagonal_offsets = [0, 1],
      dia_values = \<lparr>a2d_num_rows = 2, a2d_num_cols = 2, a2d_num_entries = 4, pitch = 2,
                    a2d_values = [1, 2, 3, 0]\<rparr>\<rparr>"

text \<open>
  A \<open>3 \<times> 3\<close> matrix stored with pitch \<open>4\<close>: the main diagonal \<open>[1, 2, 3]\<close> and the
  diagonal at offset \<open>+1\<close> holding \<open>[4, 5]\<close>, five entries. The fourth slot of each
  diagonal is pitch padding, the third slot of the second diagonal hangs over the last
  column; the block has \<open>3 \<times> 2\<close> logical entries.
\<close>

definition padded :: "int dia_matrix" where
  "padded =
     \<lparr>dia_num_rows = 3, dia_num_cols = 3, dia_num_entries = 5, diagonal_offsets = [0, 1],
      dia_values = \<lparr>a2d_num_rows = 3, a2d_num_cols = 2, a2d_num_entries = 6, pitch = 4,
                    a2d_values = [1, 2, 3, 0, 4, 5, 0, 0]\<rparr>\<rparr>"

text \<open>
  A \<open>2 \<times> 2\<close> matrix with the main diagonal stored as \<open>[5, 0]\<close> and one entry declared:
  the stored zero sits at the valid coordinate \<open>(1, 1)\<close>.
\<close>

definition zero_in_second_row :: "int dia_matrix" where
  "zero_in_second_row =
     \<lparr>dia_num_rows = 2, dia_num_cols = 2, dia_num_entries = 1, diagonal_offsets = [0],
      dia_values = \<lparr>a2d_num_rows = 2, a2d_num_cols = 1, a2d_num_entries = 2, pitch = 2,
                    a2d_values = [5, 0]\<rparr>\<rparr>"

section \<open>Properties\<close>

subsection \<open>Index arithmetic\<close>

text \<open>
  On the indices the converters visit, which are not negative, the truncating division
  and remainder of C++ are those of the natural numbers.
\<close>

lemma sdiv_of_nat: "int a sdiv int b = int (a div b)"
  by (simp add: signed_divide_int_def zdiv_int sgn_if)

lemma smod_of_nat: "int a smod int b = int (a mod b)"
  by (simp add: signed_modulo_int_def zmod_int sgn_if)

lemma logical_to_other_physical_of_nat:
  "logical_to_other_physical_functor r (int d) (int p) (int n) = int ((n mod d) * p + n div d)"
  by (simp add: logical_to_other_physical_functor_def sdiv_of_nat smod_of_nat)

lemma div_less_pitch:
  fixes n p d :: nat
  assumes "n < p * d"
  shows "n div d < p"
  using assms by (simp add: less_mult_imp_div_less mult.commute)

lemma slot_in_block:
  fixes row diag p d :: nat
  assumes "row < p" and "diag < d"
  shows "diag * p + row < p * d"
proof -
  have "diag * p + row < Suc diag * p"
    using assms(1) by simp
  also have "\<dots> \<le> d * p"
    using assms(2) by (intro mult_le_mono1) simp
  finally show ?thesis by (simp add: mult.commute)
qed

lemma zipped_at_slot:
  assumes "i < pitch (dia_values src)"
  shows "zipped_at src (int (j * pitch (dia_values src) + i)) =
           (int i, diagonal_offsets src ! j + int i,
            a2d_values (dia_values src) ! (j * pitch (dia_values src) + i))"
proof -
  let ?p = "pitch (dia_values src)"
  let ?k = "j * ?p + i"
  have row: "row_indices_begin src (int ?k) = int i"
    unfolding row_indices_begin_def modulus_value_def smod_of_nat using assms by simp
  have diag: "gather_indices_begin src (int ?k) = int j"
    unfolding gather_indices_begin_def divide_value_def sdiv_of_nat using assms by simp
  have col: "column_indices_begin src (int ?k) = diagonal_offsets src ! j + int i"
    unfolding column_indices_begin_def offsets_begin_def sum_tuple_functor_def row diag by simp
  show ?thesis
    unfolding zipped_at_def row col nat_int ..
qed

lemma permuted_at_slot:
  assumes "n < pitch (dia_values src) * a2d_num_cols (dia_values src)"
  shows "permuted_at src n =
           (int (n div a2d_num_cols (dia_values src)),
            diagonal_offsets src ! (n mod a2d_num_cols (dia_values src))
              + int (n div a2d_num_cols (dia_values src)),
            a2d_values (dia_values src) !
              ((n mod a2d_num_cols (dia_values src)) * pitch (dia_values src)
                 + n div a2d_num_cols (dia_values src)))"
  unfolding permuted_at_def logical_to_other_physical_of_nat
  by (rule zipped_at_slot) (rule div_less_pitch [OF assms])

lemma column_indices_begin_of_nat:
  "column_indices_begin src (int k) =
     diagonal_offsets src ! (k div pitch (dia_values src)) + int (k mod pitch (dia_values src))"
  by (simp add: column_indices_begin_def offsets_begin_def gather_indices_begin_def
      row_indices_begin_def sum_tuple_functor_def divide_value_def modulus_value_def
      sdiv_of_nat smod_of_nat)

lemma valid_ell_functor_sentinel:
  "valid_ell_functor nc col = - 1 \<longleftrightarrow> \<not> (0 \<le> col \<and> col < int nc)"
  by (simp add: valid_ell_functor_def)

subsection \<open>Structural validity\<close>

lemma dia_wf_covers:
  assumes "dia_wf src"
  shows "dia_num_rows src * length (diagonal_offsets src) \<le> a2d_num_entries (dia_values src)"
    and "a2d_num_entries (dia_values src) \<le> pitch (dia_values src) * length (diagonal_offsets src)"
    and "length (a2d_values (dia_values src)) = pitch (dia_values src) * length (diagonal_offsets src)"
    and "dia_num_rows src \<le> pitch (dia_values src)"
  using assms unfolding dia_wf_def by metis+

lemma dia_wf_unpadded:
  assumes "dia_wf src" and "pitch (dia_values src) = dia_num_rows src"
  shows "a2d_num_entries (dia_values src) = pitch (dia_values src) * length (diagonal_offsets src)"
  using dia_wf_covers(1,2) [OF assms(1)] assms(2) by simp

subsection \<open>The permuted entries, row by row\<close>

text \<open>
  The permutation iterator reads the slot of row \<open>n div num_diagonals\<close> on diagonal
  \<open>n mod num_diagonals\<close>; positions past the last row are padding and fail the filter.
\<close>

lemma dia_entries_slots:
  assumes "dia_wf src"
  shows "dia_entries src =
           map (\<lambda>n. dia_slot src (n div length (diagonal_offsets src))
                              (n mod length (diagonal_offsets src)))
             [0..<a2d_num_entries (dia_values src)]"
  unfolding dia_entries_def
proof (rule map_cong [OF refl])
  fix n assume "n \<in> set [0..<a2d_num_entries (dia_values src)]"
  with assms have "n < pitch (dia_values src) * a2d_num_cols (dia_values src)"
    by (simp add: dia_wf_def)
  from permuted_at_slot [OF this] assms
  show "permuted_at src n =
          dia_slot src (n div length (diagonal_offsets src)) (n mod length (diagonal_offsets src))"
    by (simp add: dia_slot_def dia_wf_def)
qed

lemma map_div_mod_upt:
  fixes d :: nat
  shows "map (\<lambda>n. f (n div d) (n mod d)) [0..<r * d] = concat (map (\<lambda>i. map (f i) [0..<d]) [0..<r])"
proof (induction r)
  case 0
  show ?case by simp
next
  case (Suc r)
  have block: "map (\<lambda>n. f (n div d) (n mod d)) [r * d..<r * d + d] = map (f r) [0..<d]"
  proof -
    have "[r * d..<r * d + d] = map (\<lambda>j. j + r * d) [0..<d]"
      by (simp add: map_add_upt add.commute)
    then have "map (\<lambda>n. f (n div d) (n mod d)) [r * d..<r * d + d] =
                 map (\<lambda>j. f ((j + r * d) div d) ((j + r * d) mod d)) [0..<d]"
      by (simp add: comp_def)
    also have "\<dots> = map (f r) [0..<d]"
      by (rule map_cong [OF refl]) simp
    finally show ?thesis .
  qed
  have "[0..<Suc r * d] = [0..<r * d] @ [r * d..<r * d + d]"
    using upt_add_eq_append [of 0 "r * d" d] by (simp add: add.commute)
  then show ?case
    using Suc.IH block by simp
qed

lemma padding_rows_filtered:
  assumes "dia_wf src"
  shows "filter (is_valid_coo_index (int (dia_num_rows src)) c)
           (map (\<lambda>n. dia_slot src (n div length (diagonal_offsets src))
                              (n mod length (diagonal_offsets src)))
              [dia_num_rows src * length (diagonal_offsets src)..<a2d_num_entries (dia_values src)]) = []"
proof (cases "length (diagonal_offsets src) = 0")
  case True
  with dia_wf_covers(2) [OF assms] have "a2d_num_entries (dia_values src) = 0"
    by simp
  then show ?thesis by simp
next
  case False
  let ?d = "length (diagonal_offsets src)"
  have "\<not> is_valid_coo_index (int (dia_num_rows src)) c (dia_slot src (n div ?d) (n mod ?d))"
    if "dia_num_rows src * ?d \<le> n" for n
  proof -
    from that False have "dia_num_rows src \<le> n div ?d"
      by (simp add: less_eq_div_iff_mult_less_eq)
    then show ?thesis
      by (simp add: is_valid_coo_index_def dia_slot_def)
  qed
  then show ?thesis
    by (simp add: filter_empty_conv)
qed

lemma coo_survivors_row_major:
  assumes "dia_wf src"
  shows "coo_survivors src =
           filter (is_valid_coo_index (int (dia_num_rows src)) (int (dia_num_cols src)))
             (row_major_enumeration src)"
proof -
  let ?d = "length (diagonal_offsets src)"
  let ?r = "dia_num_rows src"
  let ?n = "a2d_num_entries (dia_values src)"
  have split: "[0..<?n] = [0..<?r * ?d] @ [?r * ?d..<?n]"
    using upt_add_eq_append [of 0 "?r * ?d" "?n - ?r * ?d"] dia_wf_covers(1) [OF assms] by simp
  show ?thesis
    unfolding coo_survivors_def dia_entries_slots [OF assms] split map_append filter_append
      padding_rows_filtered [OF assms] map_div_mod_upt row_major_enumeration_def
    by simp
qed

lemma sorted_rows_dia_entries:
  assumes "dia_wf src"
  shows "sorted (map fst (dia_entries src))"
proof -
  have "sorted_wrt (\<lambda>a b. a div d \<le> b div d) [0..<n]" for d n :: nat
    by (rule sorted_wrt_mono_rel [of _ "(\<le>)"]) (simp_all add: div_le_mono)
  then show ?thesis
    unfolding dia_entries_slots [OF assms]
    by (simp add: sorted_map dia_slot_def comp_def)
qed

lemma sorted_rows_coo_survivors:
  assumes "dia_wf src"
  shows "sorted (map fst (coo_survivors src))"
  unfolding coo_survivors_def
  by (rule sorted_filter) (rule sorted_rows_dia_entries [OF assms])

subsection \<open>Survivors of the filter\<close>

lemma coo_survivors_valid:
  assumes "t \<in> set (coo_survivors src)"
  shows "is_valid_coo_index (int (dia_num_rows src)) (int (dia_num_cols src)) t"
  using assms by (simp add: coo_survivors_def)

lemma coo_survivors_nth_bounds:
  assumes "k < length (coo_survivors src)"
  shows "0 \<le> fst (coo_survivors src ! k) \<and> fst (coo_survivors src ! k) < int (dia_num_rows src)
       \<and> 0 \<le> fst (snd (coo_survivors src ! k))
       \<and> fst (snd (coo_survivors src ! k)) < int (dia_num_cols src)
       \<and> snd (snd (coo_survivors src ! k)) \<noteq> 0"
proof -
  obtain i j v where t: "coo_survivors src ! k = (i, j, v)"
    by (cases "coo_survivors src ! k") auto
  with assms have "(i, j, v) \<in> set (coo_survivors src)"
    by (metis nth_mem)
  from coo_survivors_valid [OF this] show ?thesis
    by (simp add: t is_valid_coo_index_def)
qed

lemma survivor_rows_below:
  "filter (\<lambda>i. i < int (dia_num_rows src)) (map fst (coo_survivors src)) = map fst (coo_survivors src)"
proof -
  have "fst t < int (dia_num_rows src)" if "t \<in> set (coo_survivors src)" for t
    using coo_survivors_valid [OF that] by (cases t) (simp add: is_valid_coo_index_def)
  then show ?thesis
    by (simp add: filter_id_conv)
qed

lemma survivor_rows_range:
  "\<forall>x\<in>set (map fst (coo_survivors src)). 0 \<le> x \<and> x < int (dia_num_rows src)"
proof
  fix x assume "x \<in> set (map fst (coo_survivors src))"
  then obtain t where "t \<in> set (coo_survivors src)" and "x = fst t"
    by auto
  with coo_survivors_valid [of t src] show "0 \<le> x \<and> x < int (dia_num_rows src)"
    by (cases t) (simp add: is_valid_coo_index_def)
qed

lemma survivor_values_nonzero: "0 \<notin> set (map (snd \<circ> snd) (coo_survivors src))"
proof
  assume "0 \<in> set (map (snd \<circ> snd) (coo_survivors src))"
  then obtain t where "t \<in> set (coo_survivors src)" and "snd (snd t) = 0"
    by auto
  with coo_survivors_valid [of t src] show False
    by (cases t) (simp add: is_valid_coo_index_def)
qed

lemma zip_unzip3: "zip (map fst xs) (zip (map (fst \<circ> snd) xs) (map (snd \<circ> snd) xs)) = xs"
  by (induction xs) auto

lemma take_coo_triples_fits:
  "take (length xs)
     (zip (map fst xs @ replicate n a)
        (zip (map (fst \<circ> snd) xs @ replicate n b) (map (snd \<circ> snd) xs @ replicate n c))) = xs"
  by (simp add: take_zip zip_unzip3)

lemma zip_replicate3:
  "zip (replicate n a) (zip (replicate n b) (replicate n c)) = replicate n (a, b, c)"
  by (simp add: zip_replicate)

lemma coo_triples_fits:
  "zip (map fst xs @ replicate n a)
     (zip (map (fst \<circ> snd) xs @ replicate n b) (map (snd \<circ> snd) xs @ replicate n c))
     = xs @ replicate n (a, b, c)"
  by (simp add: zip_append zip_unzip3 zip_replicate3)

subsection \<open>What the converters return\<close>

text \<open>
  Each converter returns the fresh destination when the source declares no entry, the
  destination with the survivors at the front when they fit, and \<open>Out_of_range\<close> when
  more triples survive than the source declares.
\<close>

lemma copy_if_zip3_fits:
  assumes "length (filter pred xs) \<le> n"
  shows "copy_if_zip3 pred xs (replicate n a) (replicate n b) (replicate n c) =
           Inr (map fst (filter pred xs) @ replicate (n - length (filter pred xs)) a,
                map (fst \<circ> snd) (filter pred xs) @ replicate (n - length (filter pred xs)) b,
                map (snd \<circ> snd) (filter pred xs) @ replicate (n - length (filter pred xs)) c)"
  using assms by (simp add: copy_if_zip3_def write_front_def Let_def)

lemma copy_if_zip3_overrun:
  assumes "n < length (filter pred xs)"
  shows "copy_if_zip3 pred xs (replicate n a) (replicate n b) (replicate n c) = Inl Out_of_range"
  using assms by (simp add: copy_if_zip3_def Let_def)

lemma copy_to_fits:
  assumes "length xs \<le> n"
  shows "copy_to xs (replicate n z) = Inr (xs @ replicate (n - length xs) z)"
  using assms by (simp add: copy_to_def write_front_def)

lemma convert_dia_coo_fits:
  assumes "dia_num_entries src \<noteq> 0" and "length (coo_survivors src) \<le> dia_num_entries src"
  shows "convert_dia_coo src =
           Inr \<lparr>coo_num_rows = dia_num_rows src, coo_num_cols = dia_num_cols src,
                coo_num_entries = dia_num_entries src,
                coo_row_indices = map fst (coo_survivors src)
                   @ replicate (dia_num_entries src - length (coo_survivors src)) 0,
                coo_column_indices = map (fst \<circ> snd) (coo_survivors src)
                   @ replicate (dia_num_entries src - length (coo_survivors src)) 0,
                coo_values = map (snd \<circ> snd) (coo_survivors src)
                   @ replicate (dia_num_entries src - length (coo_survivors src)) 0\<rparr>"
  using assms copy_if_zip3_fits [of "is_valid_coo_index (int (dia_num_rows src)) (int (dia_num_cols src))"
      "dia_entries src" "dia_num_entries src"]
  by (simp add: convert_dia_coo_def coo_resize_def coo_survivors_def)

lemma convert_dia_coo_overrun:
  assumes "dia_num_entries src \<noteq> 0" and "dia_num_entries src < length (coo_survivors src)"
  shows "convert_dia_coo src = Inl Out_of_range"
  using assms copy_if_zip3_overrun [of "dia_num_entries src"
      "is_valid_coo_index (int (dia_num_rows src)) (int (dia_num_cols src))" "dia_entries src"]
  by (simp add: convert_dia_coo_def coo_resize_def coo_survivors_def)

lemma convert_dia_coo_empty:
  assumes "dia_num_entries src = 0"
  shows "convert_dia_coo src =
           Inr \<lparr>coo_num_rows = dia_num_rows src, coo_num_cols = dia_num_cols src,
                coo_num_entries = 0, coo_row_indices = [], coo_column_indices = [],
                coo_values = []\<rparr>"
  using assms by (simp add: convert_dia_coo_def coo_resize_def)

lemma convert_dia_coo_front:
  assumes "convert_dia_coo src = Inr coo"
  shows "take (length (coo_survivors src)) (coo_triples coo) = coo_survivors src
           \<or> coo_triples coo = []"
proof (cases "dia_num_entries src = 0")
  case True
  with assms show ?thesis
    by (auto simp: convert_dia_coo_empty [OF True] coo_triples_def)
next
  case False
  show ?thesis
  proof (cases "length (coo_survivors src) \<le> dia_num_entries src")
    case True
    from assms have "take (length (coo_survivors src)) (coo_triples coo) = coo_survivors src"
      unfolding convert_dia_coo_fits [OF False True] coo_triples_def
      by (auto simp only: coo_matrix.simps take_coo_triples_fits sum.inject)
    then show ?thesis ..
  next
    case False
    with assms convert_dia_coo_overrun [OF \<open>dia_num_entries src \<noteq> 0\<close>] show ?thesis
      by simp
  qed
qed

lemma convert_dia_coo_exact:
  assumes "convert_dia_coo src = Inr coo"
    and "length (coo_survivors src) = dia_num_entries src"
  shows "coo_triples coo = coo_survivors src"
proof (cases "dia_num_entries src = 0")
  case True
  with assms show ?thesis
    by (auto simp: convert_dia_coo_empty [OF True] coo_triples_def)
next
  case False
  have fits: "length (coo_survivors src) \<le> dia_num_entries src"
    using assms(2) by simp
  from assms show ?thesis
    unfolding convert_dia_coo_fits [OF False fits]
    by (auto simp: coo_triples_def zip_unzip3)
qed

lemma convert_dia_coo_triples:
  assumes "dia_num_entries src \<noteq> 0" and "length (coo_survivors src) \<le> dia_num_entries src"
  shows "\<exists>coo. convert_dia_coo src = Inr coo
           \<and> coo_num_rows coo = dia_num_rows src \<and> coo_num_cols coo = dia_num_cols src
           \<and> coo_num_entries coo = dia_num_entries src
           \<and> coo_triples coo =
               coo_survivors src
                 @ replicate (dia_num_entries src - length (coo_survivors src)) (0, 0, 0)"
proof -
  let ?S = "coo_survivors src"
  let ?pad = "dia_num_entries src - length ?S"
  let ?dst = "\<lparr>coo_num_rows = dia_num_rows src, coo_num_cols = dia_num_cols src,
                coo_num_entries = dia_num_entries src,
                coo_row_indices = map fst ?S @ replicate ?pad 0,
                coo_column_indices = map (fst \<circ> snd) ?S @ replicate ?pad 0,
                coo_values = map (snd \<circ> snd) ?S @ replicate ?pad 0\<rparr>"
  have "convert_dia_coo src = Inr ?dst"
    by (rule convert_dia_coo_fits [OF assms])
  moreover have "coo_triples ?dst = ?S @ replicate ?pad (0, 0, 0)"
    unfolding coo_triples_def by (simp only: coo_matrix.simps coo_triples_fits)
  moreover have "coo_num_rows ?dst = dia_num_rows src" "coo_num_cols ?dst = dia_num_cols src"
    "coo_num_entries ?dst = dia_num_entries src"
    by simp_all
  ultimately show ?thesis by blast
qed

lemma convert_dia_csr_fits:
  assumes "dia_num_entries src \<noteq> 0" and "length (coo_survivors src) \<le> dia_num_entries src"
  shows "convert_dia_csr src =
           Inr \<lparr>csr_num_rows = dia_num_rows src, csr_num_cols = dia_num_cols src,
                csr_num_entries = dia_num_entries src,
                csr_row_offsets =
                  indices_to_offsets
                    (map fst (coo_survivors src)
                       @ replicate (dia_num_entries src - length (coo_survivors src)) 0)
                    (replicate (dia_num_rows src + 1) 0),
                csr_column_indices = map (fst \<circ> snd) (coo_survivors src)
                   @ replicate (dia_num_entries src - length (coo_survivors src)) 0,
                csr_values = map (snd \<circ> snd) (coo_survivors src)
                   @ replicate (dia_num_entries src - length (coo_survivors src)) 0\<rparr>"
  using assms copy_if_zip3_fits [of "is_valid_coo_index (int (dia_num_rows src)) (int (dia_num_cols src))"
      "dia_entries src" "dia_num_entries src"]
  by (simp add: convert_dia_csr_def csr_resize_def coo_survivors_def)

lemma convert_dia_csr_overrun:
  assumes "dia_num_entries src \<noteq> 0" and "dia_num_entries src < length (coo_survivors src)"
  shows "convert_dia_csr src = Inl Out_of_range"
  using assms copy_if_zip3_overrun [of "dia_num_entries src"
      "is_valid_coo_index (int (dia_num_rows src)) (int (dia_num_cols src))" "dia_entries src"]
  by (simp add: convert_dia_csr_def csr_resize_def coo_survivors_def)

lemma convert_dia_csr_empty:
  assumes "dia_num_entries src = 0"
  shows "convert_dia_csr src =
           Inr \<lparr>csr_num_rows = dia_num_rows src, csr_num_cols = dia_num_cols src,
                csr_num_entries = 0, csr_row_offsets = replicate (dia_num_rows src + 1) 0,
                csr_column_indices = [], csr_values = []\<rparr>"
  using assms by (simp add: convert_dia_csr_def csr_resize_def)

lemma convert_dia_csr_front:
  assumes "convert_dia_csr src = Inr csr"
  shows "take (length (coo_survivors src)) (csr_values csr) = map (snd \<circ> snd) (coo_survivors src)
           \<or> csr_values csr = []"
proof (cases "dia_num_entries src = 0")
  case True
  with assms show ?thesis
    by (auto simp: convert_dia_csr_empty [OF True])
next
  case False
  show ?thesis
  proof (cases "length (coo_survivors src) \<le> dia_num_entries src")
    case True
    with assms show ?thesis
      by (auto simp: convert_dia_csr_fits [OF False True])
  next
    case False
    with assms convert_dia_csr_overrun [OF \<open>dia_num_entries src \<noteq> 0\<close>] show ?thesis
      by simp
  qed
qed

lemma convert_dia_csr_exact:
  assumes "convert_dia_csr src = Inr csr"
    and "length (coo_survivors src) = dia_num_entries src"
  shows "csr_values csr = map (snd \<circ> snd) (coo_survivors src)"
proof (cases "dia_num_entries src = 0")
  case True
  with assms show ?thesis
    by (auto simp: convert_dia_csr_empty [OF True])
next
  case False
  have fits: "length (coo_survivors src) \<le> dia_num_entries src"
    using assms(2) by simp
  from assms show ?thesis
    unfolding convert_dia_csr_fits [OF False fits] by auto
qed

lemma convert_dia_ell_empty:
  assumes "dia_num_entries src = 0"
  shows "convert_dia_ell src =
           Inr (ell_resize (dia_num_rows src) (dia_num_cols src) 0
                  (length (diagonal_offsets src)) (pitch (dia_values src)))"
  using assms by (simp add: convert_dia_ell_def)

lemma convert_dia_ell_fits:
  assumes "dia_wf src" and "dia_num_entries src \<noteq> 0"
  shows "convert_dia_ell src =
           Inr \<lparr>ell_num_rows = dia_num_rows src, ell_num_cols = dia_num_cols src,
                ell_num_entries = dia_num_entries src,
                ell_column_indices =
                  \<lparr>a2d_num_rows = dia_num_rows src, a2d_num_cols = length (diagonal_offsets src),
                   a2d_num_entries = dia_num_rows src * length (diagonal_offsets src),
                   pitch = pitch (dia_values src),
                   a2d_values =
                     map (\<lambda>k. valid_ell_functor (dia_num_cols src) (column_indices_begin src (int k)))
                       [0..<a2d_num_entries (dia_values src)]
                     @ replicate (pitch (dia_values src) * length (diagonal_offsets src)
                                    - a2d_num_entries (dia_values src)) 0\<rparr>,
                ell_values =
                  \<lparr>a2d_num_rows = dia_num_rows src, a2d_num_cols = length (diagonal_offsets src),
                   a2d_num_entries = dia_num_rows src * length (diagonal_offsets src),
                   pitch = pitch (dia_values src),
                   a2d_values = a2d_values (dia_values src)\<rparr>\<rparr>"
proof -
  let ?slots = "pitch (dia_values src) * length (diagonal_offsets src)"
  let ?cols = "map (\<lambda>k. valid_ell_functor (dia_num_cols src) (column_indices_begin src (int k)))
                 [0..<a2d_num_entries (dia_values src)]"
  have "length ?cols \<le> ?slots"
    using dia_wf_covers(2) [OF assms(1)] by simp
  from copy_to_fits [OF this]
  have cols: "copy_to ?cols (replicate ?slots 0) = Inr (?cols @ replicate (?slots - length ?cols) 0)" .
  have "length (a2d_values (dia_values src)) \<le> ?slots"
    using dia_wf_covers(3) [OF assms(1)] by simp
  from copy_to_fits [OF this]
  have vals: "copy_to (a2d_values (dia_values src)) (replicate ?slots (0::'a)) =
                Inr (a2d_values (dia_values src))"
    using dia_wf_covers(3) [OF assms(1)] by simp
  show ?thesis
    using assms(2) cols vals
    by (simp add: convert_dia_ell_def ell_resize_def array2d_resize_def)
qed

subsection \<open>Row offsets\<close>

text \<open>
  The offsets are non-decreasing for every input; on sorted row indices inside
  \<open>[0, num_rows)\<close> the expansion of the offsets gives the row indices back.
\<close>

lemma length_indices_to_offsets: "length (indices_to_offsets xs offs) = length offs"
  by (simp add: indices_to_offsets_def)

lemma count_below_mono:
  fixes a b :: nat
  assumes "a \<le> b"
  shows "length (filter (\<lambda>i. i < int a) xs) \<le> length (filter (\<lambda>i. i < int b) xs)"
proof -
  have "filter (\<lambda>i. i < int a) xs = filter (\<lambda>i. i < int a) (filter (\<lambda>i. i < int b) xs)"
    using assms by (auto intro: filter_cong)
  then show ?thesis
    by (metis length_filter_le)
qed

lemma sorted_indices_to_offsets: "sorted (indices_to_offsets xs offs)"
proof -
  have "sorted_wrt (\<lambda>a b. length (filter (\<lambda>i. i < int a) xs) \<le> length (filter (\<lambda>i. i < int b) xs))
          [0..<length offs]"
    by (rule sorted_wrt_mono_rel [of _ "(\<le>)"]) (simp_all add: count_below_mono)
  then show ?thesis
    by (simp add: indices_to_offsets_def sorted_map)
qed

lemma last_indices_to_offsets:
  "last (indices_to_offsets xs (replicate (Suc r) z)) = int (length (filter (\<lambda>i. i < int r) xs))"
  by (simp add: indices_to_offsets_def)

lemma nth_indices_to_offsets:
  assumes "r < length offs"
  shows "indices_to_offsets xs offs ! r = int (length (filter (\<lambda>i. i < int r) xs))"
  using assms by (simp add: indices_to_offsets_def)

lemma indices_to_offsets_Nil: "indices_to_offsets [] (replicate n z) = replicate n 0"
  by (simp add: indices_to_offsets_def map_replicate_const)

lemma count_below_Suc:
  "length (filter (\<lambda>i. i < int (r + 1)) xs) =
     length (filter (\<lambda>i. i < int r) xs) + length (filter (\<lambda>i. i = int r) xs)"
  by (induction xs) auto

lemma count_row:
  "nat (int (length (filter (\<lambda>i. i < int (r + 1)) xs)) - int (length (filter (\<lambda>i. i < int r) xs)))
     = length (filter (\<lambda>i. i = int r) xs)"
  unfolding count_below_Suc by simp

lemma offsets_to_indices_of_counts:
  "offsets_to_indices (indices_to_offsets xs (replicate (Suc r) z)) =
     concat (map (\<lambda>k. filter (\<lambda>i. i = int k) xs) [0..<r])"
proof -
  have "replicate (nat (indices_to_offsets xs (replicate (Suc r) z) ! (k + 1)
                        - indices_to_offsets xs (replicate (Suc r) z) ! k)) (int k)
          = filter (\<lambda>i. i = int k) xs" if "k < r" for k
  proof -
    have "filter (\<lambda>i. i = int k) xs = replicate (length (filter (\<lambda>i. i = int k) xs)) (int k)"
      by (induction xs) auto
    with that show ?thesis
      using count_row [of k xs] by (simp add: nth_indices_to_offsets del: of_nat_add)
  qed
  then show ?thesis
    unfolding offsets_to_indices_def length_indices_to_offsets
    by (auto intro!: arg_cong [where f = concat])
qed

lemma sorted_split_top:
  fixes xs :: "int list"
  assumes "sorted xs" and "\<forall>x\<in>set xs. x \<le> m"
  shows "filter (\<lambda>i. i < m) xs @ filter (\<lambda>i. i = m) xs = xs"
  using assms
proof (induction xs)
  case Nil
  show ?case by simp
next
  case (Cons x xs)
  show ?case
  proof (cases "x < m")
    case True
    with Cons show ?thesis by simp
  next
    case False
    with Cons.prems have "\<forall>y\<in>set (x # xs). y = m"
      by force
    then have "filter (\<lambda>i. i < m) (x # xs) = []" and "filter (\<lambda>i. i = m) (x # xs) = x # xs"
      by (auto simp: filter_empty_conv filter_id_conv)
    then show ?thesis by simp
  qed
qed

lemma concat_rows_sorted:
  assumes "sorted xs" and "\<forall>x\<in>set xs. 0 \<le> x \<and> x < int r"
  shows "concat (map (\<lambda>k. filter (\<lambda>i. i = int k) xs) [0..<r]) = xs"
  using assms
proof (induction r arbitrary: xs)
  case 0
  then have "xs = []" by (cases xs) auto
  then show ?case by simp
next
  case (Suc r)
  let ?lo = "filter (\<lambda>i. i < int r) xs"
  have "map (\<lambda>k. filter (\<lambda>i. i = int k) xs) [0..<r] = map (\<lambda>k. filter (\<lambda>i. i = int k) ?lo) [0..<r]"
    by (rule map_cong [OF refl]) (auto intro: filter_cong)
  moreover have "concat (map (\<lambda>k. filter (\<lambda>i. i = int k) ?lo) [0..<r]) = ?lo"
    using Suc.prems by (intro Suc.IH sorted_filter [where f = id, simplified]) auto
  moreover have "?lo @ filter (\<lambda>i. i = int r) xs = xs"
    using Suc.prems by (intro sorted_split_top) auto
  ultimately have "concat (map (\<lambda>k. filter (\<lambda>i. i = int k) xs) [0..<r])
                     @ filter (\<lambda>i. i = int r) xs = xs"
    by metis
  then show ?case by simp
qed

lemma offsets_to_indices_inverse:
  assumes "sorted xs" and "\<forall>x\<in>set xs. 0 \<le> x \<and> x < int r"
  shows "offsets_to_indices (indices_to_offsets xs (replicate (Suc r) z)) = xs"
  unfolding offsets_to_indices_of_counts by (rule concat_rows_sorted [OF assms])

subsection \<open>The two enumerations hold the same triples\<close>

lemma mset_concat_swap:
  "mset (concat (map (\<lambda>j. map (\<lambda>i. g i j) [0..<r]) [0..<d])) =
   mset (concat (map (\<lambda>i. map (g i) [0..<d]) [0..<r]))"
proof (induction d)
  case 0
  show ?case by (induction r) simp_all
next
  case (Suc d)
  have "mset (concat (map (\<lambda>i. map (g i) [0..<Suc d]) [0..<r])) =
        mset (concat (map (\<lambda>i. map (g i) [0..<d]) [0..<r])) + mset (map (\<lambda>i. g i d) [0..<r])"
    by (induction r) simp_all
  with Suc show ?case by simp
qed

lemma filter_rows_upto_pitch:
  assumes "r \<le> p"
  shows "filter (is_valid_coo_index (int r) c) (map (\<lambda>row. dia_slot src row diag) [0..<p]) =
         filter (is_valid_coo_index (int r) c) (map (\<lambda>row. dia_slot src row diag) [0..<r])"
proof -
  have "[0..<p] = [0..<r] @ [r..<p]"
    using assms upt_add_eq_append [of 0 r "p - r"] by simp
  moreover have "filter (is_valid_coo_index (int r) c) (map (\<lambda>row. dia_slot src row diag) [r..<p]) = []"
    by (simp add: filter_empty_conv is_valid_coo_index_def dia_slot_def)
  ultimately show ?thesis by simp
qed

lemma k_enumeration_diagonal_major:
  "k_enumeration src =
     concat (map (\<lambda>diag. map (\<lambda>row. dia_slot src row diag) [0..<pitch (dia_values src)])
               [0..<length (diagonal_offsets src)])"
  unfolding k_enumeration_def
  using map_div_mod_upt [of "\<lambda>diag row. dia_slot src row diag" "pitch (dia_values src)"
      "length (diagonal_offsets src)"]
  by (simp add: mult.commute)

lemma survivors_same_triples:
  assumes "dia_wf src"
  shows "mset (filter (is_valid_coo_index (int (dia_num_rows src)) c) (k_enumeration src)) =
         mset (filter (is_valid_coo_index (int (dia_num_rows src)) c) (row_major_enumeration src))"
proof -
  let ?P = "is_valid_coo_index (int (dia_num_rows src)) c"
  let ?d = "length (diagonal_offsets src)"
  have "filter ?P (k_enumeration src) =
          concat (map (\<lambda>diag. filter ?P (map (\<lambda>row. dia_slot src row diag) [0..<pitch (dia_values src)])) [0..<?d])"
    unfolding k_enumeration_diagonal_major by (simp add: filter_concat comp_def)
  also have "\<dots> = concat (map (\<lambda>diag. filter ?P (map (\<lambda>row. dia_slot src row diag) [0..<dia_num_rows src])) [0..<?d])"
    unfolding filter_rows_upto_pitch [OF dia_wf_covers(4) [OF assms]] ..
  also have "\<dots> = filter ?P (concat (map (\<lambda>diag. map (\<lambda>row. dia_slot src row diag) [0..<dia_num_rows src]) [0..<?d]))"
    by (simp add: filter_concat comp_def)
  finally have "mset (filter ?P (k_enumeration src)) =
      filter_mset ?P (mset (concat (map (\<lambda>diag. map (\<lambda>row. dia_slot src row diag) [0..<dia_num_rows src]) [0..<?d])))"
    by simp
  also have "\<dots> = filter_mset ?P (mset (row_major_enumeration src))"
    unfolding row_major_enumeration_def
    by (rule arg_cong [where f = "filter_mset ?P"]) (rule mset_concat_swap)
  finally show ?thesis by simp
qed

subsection \<open>The example matrices\<close>

lemmas pipeline_defs =
  coo_survivors_def dia_entries_def permuted_at_def zipped_at_def
  logical_to_other_physical_functor_def row_indices_begin_def column_indices_begin_def
  offsets_begin_def gather_indices_begin_def modulus_value_def divide_value_def
  sum_tuple_functor_def is_valid_coo_index_def signed_divide_int_def signed_modulo_int_def

lemma overhang_wf: "dia_wf (overhang e)"
  by (simp add: dia_wf_def overhang_def)

lemma overhang_survivors: "coo_survivors (overhang e) = [(0, 1, 1), (1, 2, 2)]"
  by (simp add: overhang_def pipeline_defs upt_rec)

lemma explicit_zero_wf: "dia_wf explicit_zero"
  by (simp add: dia_wf_def explicit_zero_def)

lemma explicit_zero_survivors: "coo_survivors explicit_zero = [(1, 1, 5)]"
  by (simp add: explicit_zero_def pipeline_defs upt_rec)

lemma two_diagonals_wf: "dia_wf two_diagonals"
  by (simp add: dia_wf_def two_diagonals_def)

lemma two_diagonals_survivors: "coo_survivors two_diagonals = [(0, 0, 1), (0, 1, 3), (1, 1, 2)]"
  by (simp add: two_diagonals_def pipeline_defs upt_rec)

lemma empty_diagonal_wf: "dia_wf empty_diagonal"
  by (simp add: dia_wf_def empty_diagonal_def)

lemma padded_wf: "dia_wf padded"
  by (simp add: dia_wf_def padded_def)

lemma zero_in_second_row_wf: "dia_wf zero_in_second_row"
  by (simp add: dia_wf_def zero_in_second_row_def)

lemma zero_in_second_row_survivors: "coo_survivors zero_in_second_row = [(0, 0, 5)]"
  by (simp add: zero_in_second_row_def pipeline_defs upt_rec)

section \<open>The claims\<close>

text \<open>
  C1, as stated: the last row offset of the CSR result equals the number of entries that
  pass the filter. It fails when the source declares more entries than survive: the
  row-index buffer handed to \<open>indices_to_offsets\<close> has \<open>num_entries\<close> slots, and the
  slots behind the survivors still hold row \<open>0\<close> and are counted. For the matrix with
  the explicit zero the last offset is \<open>2\<close> while one entry survives.
\<close>

theorem csr_last_offset_counterexample:
  "dia_wf explicit_zero
   \<and> convert_dia_csr explicit_zero =
       Inr \<lparr>csr_num_rows = 2, csr_num_cols = 2, csr_num_entries = 2,
            csr_row_offsets = [0, 1, 2], csr_column_indices = [1, 0], csr_values = [5, 0]\<rparr>
   \<and> coo_survivors explicit_zero = [(1, 1, 5)]
   \<and> last (csr_row_offsets \<lparr>csr_num_rows = 2, csr_num_cols = 2, csr_num_entries = 2,
            csr_row_offsets = [0, 1, 2], csr_column_indices = [1, 0], csr_values = [5, 0::int]\<rparr>)
       \<noteq> int (length (coo_survivors explicit_zero))"
proof -
  have e: "dia_num_entries explicit_zero = 2" "dia_num_rows explicit_zero = 2"
    "dia_num_cols explicit_zero = 2"
    by (simp_all add: explicit_zero_def)
  have h: "dia_num_entries explicit_zero \<noteq> 0"
    "length (coo_survivors explicit_zero) \<le> dia_num_entries explicit_zero"
    unfolding e explicit_zero_survivors by simp_all
  show ?thesis
    unfolding convert_dia_csr_fits [OF h] e explicit_zero_survivors
    using explicit_zero_wf by (simp add: indices_to_offsets_def upt_rec)
qed

text \<open>
  C1, amended: for a structurally valid source whose \<open>num_entries\<close> bounds the number
  of survivors, the CSR conversion returns row offsets that are non-decreasing and
  have length \<open>num_rows + 1\<close>; the last offset is \<open>num_entries\<close> when the matrix has
  a row, and it is the number of survivors when that number equals \<open>num_entries\<close>.
\<close>

theorem csr_row_offsets_shape:
  assumes "dia_wf src"
    and "length (coo_survivors src) \<le> dia_num_entries src"
  shows "\<exists>csr. convert_dia_csr src = Inr csr
           \<and> sorted (csr_row_offsets csr)
           \<and> length (csr_row_offsets csr) = dia_num_rows src + 1
           \<and> (0 < dia_num_rows src \<longrightarrow> last (csr_row_offsets csr) = int (dia_num_entries src))
           \<and> (length (coo_survivors src) = dia_num_entries src \<longrightarrow>
                last (csr_row_offsets csr) = int (length (coo_survivors src)))"
proof (cases "dia_num_entries src = 0")
  case True
  with assms(2) show ?thesis
    by (simp add: convert_dia_csr_empty [OF True])
next
  case False
  let ?S = "coo_survivors src"
  let ?rows = "map fst ?S @ replicate (dia_num_entries src - length ?S) 0"
  let ?offs = "indices_to_offsets ?rows (replicate (dia_num_rows src + 1) 0)"
  have last: "last ?offs = int (length (filter (\<lambda>i. i < int (dia_num_rows src)) ?rows))"
    using last_indices_to_offsets [of ?rows "dia_num_rows src" 0] by simp
  have full: "last ?offs = int (dia_num_entries src)" if "0 < dia_num_rows src"
    unfolding last filter_append survivor_rows_below using that assms(2) by simp
  have exact: "last ?offs = int (length ?S)" if "length ?S = dia_num_entries src"
    unfolding last filter_append survivor_rows_below using that by simp
  show ?thesis
    unfolding convert_dia_csr_fits [OF False assms(2)]
    using full exact by (simp add: sorted_indices_to_offsets length_indices_to_offsets)
qed

theorem csr_row_offsets_shape_witness:
  "dia_wf two_diagonals
   \<and> length (coo_survivors two_diagonals) \<le> dia_num_entries two_diagonals
   \<and> (\<exists>csr. convert_dia_csr two_diagonals = Inr csr
         \<and> sorted (csr_row_offsets csr) \<and> length (csr_row_offsets csr) = 3
         \<and> last (csr_row_offsets csr) = 3)"
proof -
  have e: "dia_num_entries two_diagonals = 3" "dia_num_rows two_diagonals = 2"
    by (simp_all add: two_diagonals_def)
  have m: "length (coo_survivors two_diagonals) = 3"
    by (simp add: two_diagonals_survivors)
  have h: "length (coo_survivors two_diagonals) \<le> dia_num_entries two_diagonals"
    unfolding e m by simp
  from csr_row_offsets_shape [OF two_diagonals_wf h]
  obtain csr where "convert_dia_csr two_diagonals = Inr csr"
    and "sorted (csr_row_offsets csr)" and "length (csr_row_offsets csr) = 3"
    and "last (csr_row_offsets csr) = 3"
    unfolding e m by auto
  with two_diagonals_wf h show ?thesis by blast
qed

text \<open>
  C2, as stated: COO and CSR hold the same multiset of triples, and the expanded row
  offsets give the COO row indices of the survivors. It fails for the matrix with the
  explicit zero: the COO result holds \<open>(1, 1, 5)\<close> and the unwritten slot \<open>(0, 0, 0)\<close>,
  the CSR result expands to \<open>(0, 1, 5)\<close> and \<open>(1, 0, 0)\<close>, so the surviving entry
  is attributed to row \<open>0\<close> instead of row \<open>1\<close>.
\<close>

theorem coo_csr_triples_counterexample:
  "dia_wf explicit_zero
   \<and> convert_dia_coo explicit_zero =
       Inr \<lparr>coo_num_rows = 2, coo_num_cols = 2, coo_num_entries = 2,
            coo_row_indices = [1, 0], coo_column_indices = [1, 0], coo_values = [5, 0]\<rparr>
   \<and> convert_dia_csr explicit_zero =
       Inr \<lparr>csr_num_rows = 2, csr_num_cols = 2, csr_num_entries = 2,
            csr_row_offsets = [0, 1, 2], csr_column_indices = [1, 0], csr_values = [5, 0]\<rparr>
   \<and> coo_survivors explicit_zero = [(1, 1, 5)]
   \<and> offsets_to_indices [0, 1, 2] = [0, 1]
   \<and> take 1 (offsets_to_indices [0, 1, 2]) \<noteq> take 1 [1, 0]
   \<and> mset (csr_triples \<lparr>csr_num_rows = 2, csr_num_cols = 2, csr_num_entries = 2,
            csr_row_offsets = [0, 1, 2], csr_column_indices = [1, 0], csr_values = [5, 0::int]\<rparr>)
       \<noteq> mset (coo_triples \<lparr>coo_num_rows = 2, coo_num_cols = 2, coo_num_entries = 2,
            coo_row_indices = [1, 0], coo_column_indices = [1, 0], coo_values = [5, 0::int]\<rparr>)"
proof -
  have e: "dia_num_entries explicit_zero = 2" "dia_num_rows explicit_zero = 2"
    "dia_num_cols explicit_zero = 2"
    by (simp_all add: explicit_zero_def)
  have h: "dia_num_entries explicit_zero \<noteq> 0"
    "length (coo_survivors explicit_zero) \<le> dia_num_entries explicit_zero"
    unfolding e explicit_zero_survivors by simp_all
  have expand: "offsets_to_indices [0, 1, 2] = [0, 1]"
    by (simp add: offsets_to_indices_def upt_rec)
  have "(0, 1, 5) \<in># mset [(0, 1, 5), (1, 0, 0::int)]"
    and "(0, 1, 5) \<notin># mset [(1, 1, 5), (0::int, 0::int, 0::int)]"
    by simp_all
  then have differ: "mset [(0, 1, 5), (1, 0, 0::int)] \<noteq> mset [(1::int, 1::int, 5), (0, 0, 0)]"
    by metis
  show ?thesis
    unfolding convert_dia_coo_fits [OF h] convert_dia_csr_fits [OF h] e explicit_zero_survivors
    using explicit_zero_wf expand differ
    by (simp add: indices_to_offsets_def upt_rec csr_triples_def coo_triples_def)
qed

text \<open>
  C2, amended: for a structurally valid source whose \<open>num_entries\<close> equals the number
  of survivors, both conversions return, the CSR column and value arrays equal the COO
  ones, the expanded row offsets equal the COO row indices, and both results hold the
  same triples: the survivors of the filter.
\<close>

theorem coo_csr_same_triples:
  assumes "dia_wf src"
    and "length (coo_survivors src) = dia_num_entries src"
  shows "\<exists>coo csr. convert_dia_coo src = Inr coo \<and> convert_dia_csr src = Inr csr
           \<and> offsets_to_indices (csr_row_offsets csr) = coo_row_indices coo
           \<and> csr_column_indices csr = coo_column_indices coo
           \<and> csr_values csr = coo_values coo
           \<and> mset (csr_triples csr) = mset (coo_triples coo)
           \<and> coo_triples coo = coo_survivors src"
proof (cases "dia_num_entries src = 0")
  case True
  have "offsets_to_indices (indices_to_offsets [] (replicate (Suc (dia_num_rows src)) 0)) = []"
    by (rule offsets_to_indices_inverse) simp_all
  then have "offsets_to_indices (replicate (Suc (dia_num_rows src)) 0) = []"
    unfolding indices_to_offsets_Nil .
  with True assms(2) show ?thesis
    by (simp add: convert_dia_coo_empty [OF True] convert_dia_csr_empty [OF True]
        csr_triples_def coo_triples_def)
next
  case False
  let ?S = "coo_survivors src"
  have fits: "length ?S \<le> dia_num_entries src"
    using assms(2) by simp
  have expand: "offsets_to_indices (indices_to_offsets (map fst ?S) (replicate (Suc (dia_num_rows src)) 0))
                  = map fst ?S"
    by (rule offsets_to_indices_inverse [OF sorted_rows_coo_survivors [OF assms(1)] survivor_rows_range])
  show ?thesis
    unfolding convert_dia_coo_fits [OF False fits] convert_dia_csr_fits [OF False fits]
    using assms(2) expand by (simp add: csr_triples_def coo_triples_def zip_unzip3)
qed

theorem coo_csr_same_triples_witness:
  "dia_wf two_diagonals
   \<and> length (coo_survivors two_diagonals) = dia_num_entries two_diagonals
   \<and> (\<exists>coo csr. convert_dia_coo two_diagonals = Inr coo \<and> convert_dia_csr two_diagonals = Inr csr
         \<and> offsets_to_indices (csr_row_offsets csr) = coo_row_indices coo
         \<and> mset (csr_triples csr) = mset (coo_triples coo)
         \<and> coo_triples coo = [(0, 0, 1), (0, 1, 3), (1, 1, 2)])"
proof -
  have h: "length (coo_survivors two_diagonals) = dia_num_entries two_diagonals"
    by (simp add: two_diagonals_survivors) (simp add: two_diagonals_def)
  from coo_csr_same_triples [OF two_diagonals_wf h]
  obtain coo csr where "convert_dia_coo two_diagonals = Inr coo"
    and "convert_dia_csr two_diagonals = Inr csr"
    and "offsets_to_indices (csr_row_offsets csr) = coo_row_indices coo"
    and "mset (csr_triples csr) = mset (coo_triples coo)"
    and "coo_triples coo = [(0, 0, 1), (0, 1, 3), (1, 1, 2)]"
    unfolding two_diagonals_survivors by blast
  with two_diagonals_wf h show ?thesis by blast
qed

text \<open>
  C3. Every triple that passes the filter of the COO and CSR converters has
  \<open>0 \<le> row < num_rows\<close>, \<open>0 \<le> column < num_cols\<close> and a nonzero value: slot \<open>k\<close> of
  the COO arrays, and of the CSR column and value arrays, holds the \<open>k\<close>-th survivor,
  which is within these bounds.
\<close>

theorem survivors_within_bounds:
  assumes "dia_wf src"
    and "dia_num_entries src \<noteq> 0"
    and "length (coo_survivors src) \<le> dia_num_entries src"
    and "k < length (coo_survivors src)"
  shows "\<exists>coo csr. convert_dia_coo src = Inr coo \<and> convert_dia_csr src = Inr csr
           \<and> coo_triples coo ! k = coo_survivors src ! k
           \<and> (csr_column_indices csr ! k, csr_values csr ! k) = snd (coo_survivors src ! k)
           \<and> 0 \<le> coo_row_indices coo ! k \<and> coo_row_indices coo ! k < int (dia_num_rows src)
           \<and> 0 \<le> coo_column_indices coo ! k \<and> coo_column_indices coo ! k < int (dia_num_cols src)
           \<and> coo_values coo ! k \<noteq> 0
           \<and> 0 \<le> csr_column_indices csr ! k \<and> csr_column_indices csr ! k < int (dia_num_cols src)
           \<and> csr_values csr ! k \<noteq> 0"
  unfolding convert_dia_coo_fits [OF assms(2,3)] convert_dia_csr_fits [OF assms(2,3)]
  using assms(3,4) coo_survivors_nth_bounds [OF assms(4)]
  by (simp add: coo_triples_def nth_append)

theorem survivors_within_bounds_witness:
  "dia_wf (overhang 3) \<and> dia_num_entries (overhang 3) \<noteq> 0
   \<and> length (coo_survivors (overhang 3)) \<le> dia_num_entries (overhang 3)
   \<and> 1 < length (coo_survivors (overhang 3))
   \<and> (\<exists>coo csr. convert_dia_coo (overhang 3) = Inr coo \<and> convert_dia_csr (overhang 3) = Inr csr
         \<and> coo_triples coo ! 1 = (1, 2, 2)
         \<and> (csr_column_indices csr ! 1, csr_values csr ! 1) = (2, 2)
         \<and> 0 \<le> coo_row_indices coo ! 1 \<and> coo_row_indices coo ! 1 < 3
         \<and> 0 \<le> coo_column_indices coo ! 1 \<and> coo_column_indices coo ! 1 < 3
         \<and> coo_values coo ! 1 \<noteq> 0)"
proof -
  have e: "dia_num_entries (overhang 3) = 3" "dia_num_rows (overhang 3) = 3"
    "dia_num_cols (overhang 3) = 3"
    by (simp_all add: overhang_def)
  have h: "dia_num_entries (overhang 3) \<noteq> 0"
    "length (coo_survivors (overhang 3)) \<le> dia_num_entries (overhang 3)"
    "1 < length (coo_survivors (overhang 3))"
    unfolding e overhang_survivors by simp_all
  from survivors_within_bounds [OF overhang_wf h] h overhang_wf [of 3] show ?thesis
    unfolding e overhang_survivors by simp blast
qed

text \<open>
  C4, as stated: the COO result for the \<open>3 \<times> 3\<close> source with one diagonal at offset
  \<open>+1\<close>, pitch \<open>3\<close> and stored values \<open>[1, 2, 3]\<close> has exactly two entries. It fails
  when the source declares its three stored values as entries: the destination keeps
  \<open>num_entries = 3\<close> and holds \<open>(0, 1, 1)\<close>, \<open>(1, 2, 2)\<close> and the unwritten slot
  \<open>(0, 0, 0)\<close>.
\<close>

theorem overhang_three_entries_counterexample:
  "dia_wf (overhang 3)
   \<and> convert_dia_coo (overhang 3) =
       Inr \<lparr>coo_num_rows = 3, coo_num_cols = 3, coo_num_entries = 3,
            coo_row_indices = [0, 1, 0], coo_column_indices = [1, 2, 0], coo_values = [1, 2, 0]\<rparr>
   \<and> coo_num_entries \<lparr>coo_num_rows = 3, coo_num_cols = 3, coo_num_entries = 3,
            coo_row_indices = [0, 1, 0], coo_column_indices = [1, 2, 0], coo_values = [1, 2, 0::int]\<rparr>
       \<noteq> 2
   \<and> coo_triples \<lparr>coo_num_rows = 3, coo_num_cols = 3, coo_num_entries = 3,
            coo_row_indices = [0, 1, 0], coo_column_indices = [1, 2, 0], coo_values = [1, 2, 0::int]\<rparr>
       = [(0, 1, 1), (1, 2, 2), (0, 0, 0)]"
proof -
  have e: "dia_num_entries (overhang 3) = 3" "dia_num_rows (overhang 3) = 3"
    "dia_num_cols (overhang 3) = 3"
    by (simp_all add: overhang_def)
  have h: "dia_num_entries (overhang 3) \<noteq> 0"
    "length (coo_survivors (overhang 3)) \<le> dia_num_entries (overhang 3)"
    unfolding e overhang_survivors by simp_all
  show ?thesis
    unfolding convert_dia_coo_fits [OF h] e overhang_survivors
    using overhang_wf [of 3] by (simp add: coo_triples_def)
qed

text \<open>
  C4, amended: for this source declaring \<open>num_entries = e \<ge> 2\<close>, the entry of row \<open>2\<close>
  (derived column \<open>3\<close>) is dropped and exactly the two triples \<open>(0, 1, 1)\<close> and
  \<open>(1, 2, 2)\<close> pass the filter; the COO result keeps \<open>e\<close> slots, the two triples at the
  front and \<open>e - 2\<close> unwritten zero slots behind them, so it has exactly the two
  entries when \<open>e = 2\<close>.
\<close>

theorem overhang_coo_front:
  assumes "2 \<le> e"
  shows "coo_survivors (overhang e) = [(0, 1, 1), (1, 2, 2)]
       \<and> (\<exists>coo. convert_dia_coo (overhang e) = Inr coo
              \<and> coo_num_rows coo = 3 \<and> coo_num_cols coo = 3
              \<and> coo_num_entries coo = e
              \<and> coo_triples coo = [(0, 1, 1), (1, 2, 2)] @ replicate (e - 2) (0, 0, 0)
              \<and> (e = 2 \<longrightarrow> coo_triples coo = [(0, 1, 1), (1, 2, 2)]))"
proof -
  have e: "dia_num_entries (overhang e) = e" "dia_num_rows (overhang e) = 3"
    "dia_num_cols (overhang e) = 3"
    by (simp_all add: overhang_def)
  have m: "length (coo_survivors (overhang e)) = 2"
    by (simp add: overhang_survivors)
  have h: "dia_num_entries (overhang e) \<noteq> 0"
    "length (coo_survivors (overhang e)) \<le> dia_num_entries (overhang e)"
    unfolding e m using assms by simp_all
  from convert_dia_coo_triples [OF h]
  obtain coo where "convert_dia_coo (overhang e) = Inr coo"
    and "coo_num_rows coo = 3" and "coo_num_cols coo = 3" and "coo_num_entries coo = e"
    and t: "coo_triples coo = [(0, 1, 1), (1, 2, 2)] @ replicate (e - 2) (0, 0, 0)"
    unfolding e overhang_survivors by auto
  moreover from t have "e = 2 \<longrightarrow> coo_triples coo = [(0, 1, 1), (1, 2, 2)]"
    by simp
  ultimately show ?thesis
    using overhang_survivors [of e] by blast
qed

theorem overhang_coo_front_witness:
  "(2::nat) \<le> 2
   \<and> (\<exists>coo. convert_dia_coo (overhang 2) = Inr coo \<and> coo_num_entries coo = 2
         \<and> coo_triples coo = [(0, 1, 1), (1, 2, 2)])"
proof -
  have h: "(2::nat) \<le> 2" by simp
  from overhang_coo_front [OF h] show ?thesis by auto
qed

text \<open>
  C5. A DIA source with \<open>num_entries = 0\<close> converts to a COO, a CSR and an ELL matrix
  with zero entries whose \<open>num_rows\<close> and \<open>num_cols\<close> are those of the source.
\<close>

theorem empty_source_converts_to_empty:
  assumes "dia_num_entries src = 0"
  shows "(\<exists>coo. convert_dia_coo src = Inr coo \<and> coo_num_entries coo = 0
            \<and> coo_row_indices coo = [] \<and> coo_column_indices coo = [] \<and> coo_values coo = []
            \<and> coo_num_rows coo = dia_num_rows src \<and> coo_num_cols coo = dia_num_cols src)
       \<and> (\<exists>csr. convert_dia_csr src = Inr csr \<and> csr_num_entries csr = 0
            \<and> csr_column_indices csr = [] \<and> csr_values csr = []
            \<and> csr_num_rows csr = dia_num_rows src \<and> csr_num_cols csr = dia_num_cols src)
       \<and> (\<exists>ell. convert_dia_ell src = Inr ell \<and> ell_num_entries ell = 0
            \<and> ell_num_rows ell = dia_num_rows src \<and> ell_num_cols ell = dia_num_cols src)"
  by (simp add: convert_dia_coo_empty [OF assms] convert_dia_csr_empty [OF assms]
      convert_dia_ell_empty [OF assms] ell_resize_def)

theorem empty_source_converts_to_empty_witness:
  "dia_num_entries empty_diagonal = 0
   \<and> (\<exists>coo. convert_dia_coo empty_diagonal = Inr coo \<and> coo_num_entries coo = 0
            \<and> coo_num_rows coo = 3 \<and> coo_num_cols coo = 3)
   \<and> (\<exists>csr. convert_dia_csr empty_diagonal = Inr csr \<and> csr_num_entries csr = 0
            \<and> csr_num_rows csr = 3 \<and> csr_num_cols csr = 3)
   \<and> (\<exists>ell. convert_dia_ell empty_diagonal = Inr ell \<and> ell_num_entries ell = 0
            \<and> ell_num_rows ell = 3 \<and> ell_num_cols ell = 3)"
proof -
  have e: "dia_num_entries empty_diagonal = 0"
    by (simp add: empty_diagonal_def)
  have dims: "dia_num_rows empty_diagonal = 3" "dia_num_cols empty_diagonal = 3"
    by (simp_all add: empty_diagonal_def)
  show ?thesis
    using empty_source_converts_to_empty [OF e] e unfolding dims by blast
qed

text \<open>
  C6, as stated: an ELL column slot holds \<open>-1\<close> exactly when its derived column is out
  of range. It fails for a source with \<open>num_entries = 0\<close> that still stores a diagonal:
  the converter returns right after the allocation, so slot \<open>2\<close> of the example, whose
  derived column is \<open>3\<close>, holds \<open>0\<close>. It also fails for a source with
  \<open>num_entries > 0\<close> whose pitch exceeds \<open>num_rows\<close>: the column copy visits the first
  \<open>src.values.num_entries\<close> positions without the permutation the COO and CSR
  converters use, so slot \<open>6\<close> of the padded example (row \<open>2\<close> of the second diagonal,
  derived column \<open>3\<close>) is never written and holds \<open>0\<close>.
\<close>

theorem ell_unwritten_slots_counterexample:
  "dia_wf empty_diagonal
   \<and> convert_dia_ell empty_diagonal =
       Inr \<lparr>ell_num_rows = 3, ell_num_cols = 3, ell_num_entries = 0,
            ell_column_indices = \<lparr>a2d_num_rows = 3, a2d_num_cols = 1, a2d_num_entries = 3,
                                    pitch = 3, a2d_values = [0, 0, 0]\<rparr>,
            ell_values = \<lparr>a2d_num_rows = 3, a2d_num_cols = 1, a2d_num_entries = 3,
                            pitch = 3, a2d_values = [0, 0, 0]\<rparr>\<rparr>
   \<and> diagonal_offsets empty_diagonal ! (2 div pitch (dia_values empty_diagonal))
         + int (2 mod pitch (dia_values empty_diagonal)) = 3
   \<and> \<not> 3 < int (dia_num_cols empty_diagonal)
   \<and> [0, 0, 0 :: int] ! 2 \<noteq> - 1
   \<and> dia_wf padded \<and> dia_num_entries padded = 5
   \<and> convert_dia_ell padded =
       Inr \<lparr>ell_num_rows = 3, ell_num_cols = 3, ell_num_entries = 5,
            ell_column_indices = \<lparr>a2d_num_rows = 3, a2d_num_cols = 2, a2d_num_entries = 6,
                                    pitch = 4, a2d_values = [0, 1, 2, - 1, 1, 2, 0, 0]\<rparr>,
            ell_values = \<lparr>a2d_num_rows = 3, a2d_num_cols = 2, a2d_num_entries = 6,
                            pitch = 4, a2d_values = [1, 2, 3, 0, 4, 5, 0, 0]\<rparr>\<rparr>
   \<and> diagonal_offsets padded ! (6 div pitch (dia_values padded))
         + int (6 mod pitch (dia_values padded)) = 3
   \<and> \<not> 3 < int (dia_num_cols padded)
   \<and> [0, 1, 2, - 1, 1, 2, 0, 0 :: int] ! 6 \<noteq> - 1"
proof -
  have e: "dia_num_entries empty_diagonal = 0"
    by (simp add: empty_diagonal_def)
  have fresh: "replicate 3 (0::int) = [0, 0, 0]"
    by code_simp
  have dst: "convert_dia_ell empty_diagonal =
       Inr \<lparr>ell_num_rows = 3, ell_num_cols = 3, ell_num_entries = 0,
            ell_column_indices = \<lparr>a2d_num_rows = 3, a2d_num_cols = 1, a2d_num_entries = 3,
                                    pitch = 3, a2d_values = [0, 0, 0]\<rparr>,
            ell_values = \<lparr>a2d_num_rows = 3, a2d_num_cols = 1, a2d_num_entries = 3,
                            pitch = 3, a2d_values = [0, 0, 0]\<rparr>\<rparr>"
    unfolding convert_dia_ell_empty [OF e]
    by (simp add: empty_diagonal_def ell_resize_def array2d_resize_def fresh)
  have col: "diagonal_offsets empty_diagonal ! (2 div pitch (dia_values empty_diagonal))
         + int (2 mod pitch (dia_values empty_diagonal)) = 3"
    by (simp add: empty_diagonal_def)
  have out: "\<not> 3 < int (dia_num_cols empty_diagonal)"
    by (simp add: empty_diagonal_def)
  have slot: "[0, 0, 0 :: int] ! 2 \<noteq> - 1"
    by simp
  have pe: "dia_num_entries padded = 5"
    by (simp add: padded_def)
  have pne: "dia_num_entries padded \<noteq> 0"
    unfolding pe by simp
  have tail: "replicate 2 (0::int) = [0, 0]"
    by code_simp
  have pdst: "convert_dia_ell padded =
       Inr \<lparr>ell_num_rows = 3, ell_num_cols = 3, ell_num_entries = 5,
            ell_column_indices = \<lparr>a2d_num_rows = 3, a2d_num_cols = 2, a2d_num_entries = 6,
                                    pitch = 4, a2d_values = [0, 1, 2, - 1, 1, 2, 0, 0]\<rparr>,
            ell_values = \<lparr>a2d_num_rows = 3, a2d_num_cols = 2, a2d_num_entries = 6,
                            pitch = 4, a2d_values = [1, 2, 3, 0, 4, 5, 0, 0]\<rparr>\<rparr>"
    unfolding convert_dia_ell_fits [OF padded_wf pne]
    by (simp add: padded_def column_indices_begin_of_nat valid_ell_functor_def upt_rec tail)
  have pcol: "diagonal_offsets padded ! (6 div pitch (dia_values padded))
         + int (6 mod pitch (dia_values padded)) = 3"
    by (simp add: padded_def)
  have pout: "\<not> 3 < int (dia_num_cols padded)"
    by (simp add: padded_def)
  have pslot: "[0, 1, 2, - 1, 1, 2, 0, 0 :: int] ! 6 \<noteq> - 1"
    by simp
  from empty_diagonal_wf dst col out slot padded_wf pe pdst pcol pout pslot
  show ?thesis by blast
qed

text \<open>
  C6, amended: for a structurally valid source with \<open>num_entries > 0\<close> and no pitch
  padding (\<open>pitch = num_rows\<close>) the ELL conversion returns a column-index block with
  \<open>pitch \<times> num_diagonals\<close> slots, as many as the source value block, and every slot
  holds \<open>-1\<close> if and only if its derived column
  \<open>diagonal_offsets[k div pitch] + k mod pitch\<close> lies outside \<open>[0, num_cols)\<close>.
\<close>

theorem ell_sentinel_all_slots:
  assumes "dia_wf src" and "dia_num_entries src \<noteq> 0"
    and "pitch (dia_values src) = dia_num_rows src"
  shows "\<exists>ell. convert_dia_ell src = Inr ell
           \<and> length (a2d_values (ell_column_indices ell)) =
               pitch (dia_values src) * length (diagonal_offsets src)
           \<and> length (a2d_values (ell_column_indices ell)) = length (a2d_values (dia_values src))
           \<and> (\<forall>k<pitch (dia_values src) * length (diagonal_offsets src).
                 a2d_values (ell_column_indices ell) ! k = - 1 \<longleftrightarrow>
                 \<not> (0 \<le> diagonal_offsets src ! (k div pitch (dia_values src))
                            + int (k mod pitch (dia_values src))
                    \<and> diagonal_offsets src ! (k div pitch (dia_values src))
                            + int (k mod pitch (dia_values src)) < int (dia_num_cols src)))"
  unfolding convert_dia_ell_fits [OF assms(1,2)]
  using dia_wf_covers(3) [OF assms(1)] dia_wf_unpadded [OF assms(1,3)]
  by (simp add: valid_ell_functor_sentinel column_indices_begin_of_nat)

theorem ell_sentinel_all_slots_witness:
  "dia_wf (overhang 3) \<and> dia_num_entries (overhang 3) \<noteq> 0
   \<and> pitch (dia_values (overhang 3)) = dia_num_rows (overhang 3)
   \<and> (\<exists>ell. convert_dia_ell (overhang 3) = Inr ell
         \<and> length (a2d_values (ell_column_indices ell)) = 3
         \<and> a2d_values (ell_column_indices ell) ! 1 \<noteq> - 1
         \<and> a2d_values (ell_column_indices ell) ! 2 = - 1)"
proof -
  have e: "dia_num_entries (overhang 3) \<noteq> 0"
    and p: "pitch (dia_values (overhang 3)) = dia_num_rows (overhang 3)"
    by (simp_all add: overhang_def)
  from ell_sentinel_all_slots [OF overhang_wf e p]
  obtain ell where c: "convert_dia_ell (overhang 3) = Inr ell"
    and n: "length (a2d_values (ell_column_indices ell)) =
              pitch (dia_values (overhang 3)) * length (diagonal_offsets (overhang 3))"
    and s: "\<And>k. k < pitch (dia_values (overhang 3)) * length (diagonal_offsets (overhang 3)) \<Longrightarrow>
              a2d_values (ell_column_indices ell) ! k = - 1 \<longleftrightarrow>
                 \<not> (0 \<le> diagonal_offsets (overhang 3) ! (k div pitch (dia_values (overhang 3)))
                            + int (k mod pitch (dia_values (overhang 3)))
                    \<and> diagonal_offsets (overhang 3) ! (k div pitch (dia_values (overhang 3)))
                            + int (k mod pitch (dia_values (overhang 3))) < int (dia_num_cols (overhang 3)))"
    by blast
  have "length (a2d_values (ell_column_indices ell)) = 3"
    using n by (simp add: overhang_def)
  moreover have "a2d_values (ell_column_indices ell) ! 1 \<noteq> - 1"
    using s [of 1] by (simp add: overhang_def)
  moreover have "a2d_values (ell_column_indices ell) ! 2 = - 1"
    using s [of 2] by (simp add: overhang_def)
  ultimately show ?thesis
    using c e p overhang_wf [of 3] by blast
qed

text \<open>
  C7, as stated: a stored value \<open>0\<close> at a valid coordinate is absent from the COO and
  CSR outputs. It fails when the stored zero is counted in \<open>num_entries\<close>: the slots
  behind the survivors keep the zeros of the allocation, so for the matrix with the
  explicit zero at \<open>(0, 0)\<close> the COO output holds the triple \<open>(0, 0, 0)\<close> and the CSR
  values hold \<open>0\<close>.
\<close>

theorem stored_zero_in_output_counterexample:
  "dia_wf explicit_zero
   \<and> a2d_values (dia_values explicit_zero) ! (0 * pitch (dia_values explicit_zero) + 0) = 0
   \<and> dia_slot explicit_zero 0 0 = (0, 0, 0)
   \<and> convert_dia_coo explicit_zero =
       Inr \<lparr>coo_num_rows = 2, coo_num_cols = 2, coo_num_entries = 2,
            coo_row_indices = [1, 0], coo_column_indices = [1, 0], coo_values = [5, 0]\<rparr>
   \<and> dia_slot explicit_zero 0 0
       \<in> set (coo_triples \<lparr>coo_num_rows = 2, coo_num_cols = 2, coo_num_entries = 2,
            coo_row_indices = [1, 0], coo_column_indices = [1, 0], coo_values = [5, 0::int]\<rparr>)
   \<and> convert_dia_csr explicit_zero =
       Inr \<lparr>csr_num_rows = 2, csr_num_cols = 2, csr_num_entries = 2,
            csr_row_offsets = [0, 1, 2], csr_column_indices = [1, 0], csr_values = [5, 0]\<rparr>
   \<and> 0 \<in> set (csr_values \<lparr>csr_num_rows = 2, csr_num_cols = 2, csr_num_entries = 2,
            csr_row_offsets = [0, 1, 2], csr_column_indices = [1, 0], csr_values = [5, 0::int]\<rparr>)"
proof -
  have e: "dia_num_entries explicit_zero = 2" "dia_num_rows explicit_zero = 2"
    "dia_num_cols explicit_zero = 2"
    by (simp_all add: explicit_zero_def)
  have h: "dia_num_entries explicit_zero \<noteq> 0"
    "length (coo_survivors explicit_zero) \<le> dia_num_entries explicit_zero"
    unfolding e explicit_zero_survivors by simp_all
  have slot: "dia_slot explicit_zero 0 0 = (0, 0, 0)"
    by (simp add: dia_slot_def explicit_zero_def)
  have stored: "a2d_values (dia_values explicit_zero) ! (0 * pitch (dia_values explicit_zero) + 0) = 0"
    by (simp add: explicit_zero_def)
  show ?thesis
    unfolding slot convert_dia_coo_fits [OF h] convert_dia_csr_fits [OF h] e explicit_zero_survivors
    using explicit_zero_wf stored
    by (simp add: coo_triples_def indices_to_offsets_def upt_rec)
qed

text \<open>
  C7, amended: a stored value \<open>0\<close> at a valid coordinate (row below \<open>num_rows\<close>,
  derived column inside \<open>[0, num_cols)\<close>) does not pass the filter: its triple is not
  among the survivors which the filter writes to the front of the COO arrays, no value
  written by the CSR filter step is zero, and the entry is absent from the whole COO
  and CSR output when \<open>num_entries\<close> is the number of survivors. The ELL conversion
  returns; the slot of the entry in the ELL value block holds the stored value and its
  column slot is not the sentinel \<open>-1\<close>. For \<open>num_entries > 0\<close> the whole value block
  is the source's, copied verbatim, and without pitch padding the column slot holds the
  derived column.
\<close>

theorem stored_zero_filtered_ell_kept:
  assumes "dia_wf src"
    and "row < dia_num_rows src" and "diag < length (diagonal_offsets src)"
    and "0 \<le> diagonal_offsets src ! diag + int row"
    and "diagonal_offsets src ! diag + int row < int (dia_num_cols src)"
    and "a2d_values (dia_values src) ! (diag * pitch (dia_values src) + row) = 0"
  shows "dia_slot src row diag \<notin> set (coo_survivors src)
       \<and> (\<forall>coo. convert_dia_coo src = Inr coo \<longrightarrow>
              dia_slot src row diag \<notin> set (take (length (coo_survivors src)) (coo_triples coo))
              \<and> (length (coo_survivors src) = dia_num_entries src \<longrightarrow>
                   dia_slot src row diag \<notin> set (coo_triples coo)))
       \<and> (\<forall>csr. convert_dia_csr src = Inr csr \<longrightarrow>
              0 \<notin> set (take (length (coo_survivors src)) (csr_values csr))
              \<and> (length (coo_survivors src) = dia_num_entries src \<longrightarrow>
                   0 \<notin> set (csr_values csr)))
       \<and> (\<exists>ell. convert_dia_ell src = Inr ell
              \<and> a2d_values (ell_values ell) ! (diag * pitch (dia_values src) + row) =
                  a2d_values (dia_values src) ! (diag * pitch (dia_values src) + row)
              \<and> a2d_values (ell_column_indices ell) ! (diag * pitch (dia_values src) + row) \<noteq> - 1
              \<and> (dia_num_entries src \<noteq> 0 \<longrightarrow>
                   a2d_values (ell_values ell) = a2d_values (dia_values src))
              \<and> (dia_num_entries src \<noteq> 0 \<longrightarrow> pitch (dia_values src) = dia_num_rows src \<longrightarrow>
                   a2d_values (ell_column_indices ell) ! (diag * pitch (dia_values src) + row) =
                     diagonal_offsets src ! diag + int row))"
proof (intro conjI allI impI)
  let ?p = "pitch (dia_values src)"
  let ?k = "diag * ?p + row"
  have zero: "snd (snd (dia_slot src row diag)) = 0"
    using assms(6) by (simp add: dia_slot_def)
  show absent: "dia_slot src row diag \<notin> set (coo_survivors src)"
  proof
    assume "dia_slot src row diag \<in> set (coo_survivors src)"
    from coo_survivors_valid [OF this] zero show False
      by (cases "dia_slot src row diag") (simp add: is_valid_coo_index_def)
  qed
  show "dia_slot src row diag \<notin> set (take (length (coo_survivors src)) (coo_triples coo))"
    if "convert_dia_coo src = Inr coo" for coo
    using convert_dia_coo_front [OF that] absent by auto
  show "dia_slot src row diag \<notin> set (coo_triples coo)"
    if "convert_dia_coo src = Inr coo" and "length (coo_survivors src) = dia_num_entries src" for coo
    using convert_dia_coo_exact [OF that] absent by simp
  show "0 \<notin> set (take (length (coo_survivors src)) (csr_values csr))"
    if "convert_dia_csr src = Inr csr" for csr
    using convert_dia_csr_front [OF that] survivor_values_nonzero [of src] by auto
  show "0 \<notin> set (csr_values csr)"
    if "convert_dia_csr src = Inr csr" and "length (coo_survivors src) = dia_num_entries src" for csr
    using convert_dia_csr_exact [OF that] survivor_values_nonzero [of src] by simp
  have row_p: "row < ?p"
    using assms(2) dia_wf_covers(4) [OF assms(1)] by simp
  have in_block: "?k < ?p * length (diagonal_offsets src)"
    by (rule slot_in_block [OF row_p assms(3)])
  have col: "column_indices_begin src (int ?k) = diagonal_offsets src ! diag + int row"
    unfolding column_indices_begin_of_nat using row_p by simp
  have valid: "valid_ell_functor (dia_num_cols src) (column_indices_begin src (int ?k)) =
                 diagonal_offsets src ! diag + int row"
    unfolding col using assms(4,5) by (simp add: valid_ell_functor_def)
  show "\<exists>ell. convert_dia_ell src = Inr ell
          \<and> a2d_values (ell_values ell) ! ?k = a2d_values (dia_values src) ! ?k
          \<and> a2d_values (ell_column_indices ell) ! ?k \<noteq> - 1
          \<and> (dia_num_entries src \<noteq> 0 \<longrightarrow>
                a2d_values (ell_values ell) = a2d_values (dia_values src))
          \<and> (dia_num_entries src \<noteq> 0 \<longrightarrow> ?p = dia_num_rows src \<longrightarrow>
                a2d_values (ell_column_indices ell) ! ?k = diagonal_offsets src ! diag + int row)"
  proof (cases "dia_num_entries src = 0")
    case True
    show ?thesis
      unfolding convert_dia_ell_empty [OF True]
      using in_block assms(6) True by (simp add: ell_resize_def array2d_resize_def)
  next
    case False
    have written: "(map (\<lambda>k. valid_ell_functor (dia_num_cols src) (column_indices_begin src (int k)))
                      [0..<a2d_num_entries (dia_values src)]
                    @ replicate (?p * length (diagonal_offsets src) - a2d_num_entries (dia_values src)) 0)
                   ! ?k = diagonal_offsets src ! diag + int row"
      if "?p = dia_num_rows src"
      using in_block dia_wf_unpadded [OF assms(1) that] valid by (simp add: nth_append)
    have not_sentinel: "(map (\<lambda>k. valid_ell_functor (dia_num_cols src) (column_indices_begin src (int k)))
                      [0..<a2d_num_entries (dia_values src)]
                    @ replicate (?p * length (diagonal_offsets src) - a2d_num_entries (dia_values src)) 0)
                   ! ?k \<noteq> - 1"
      using in_block valid assms(4) by (simp add: nth_append)
    show ?thesis
      unfolding convert_dia_ell_fits [OF assms(1) False]
      using written not_sentinel by simp
  qed
qed

theorem stored_zero_filtered_ell_kept_witness:
  "dia_wf zero_in_second_row
   \<and> 1 < dia_num_rows zero_in_second_row \<and> 0 < length (diagonal_offsets zero_in_second_row)
   \<and> a2d_values (dia_values zero_in_second_row) ! 1 = 0
   \<and> dia_slot zero_in_second_row 1 0 = (1, 1, 0)
   \<and> (1, 1, 0) \<notin> set (coo_survivors zero_in_second_row)
   \<and> (\<exists>coo. convert_dia_coo zero_in_second_row = Inr coo
         \<and> (1, 1, 0) \<notin> set (coo_triples coo))
   \<and> (\<exists>ell. convert_dia_ell zero_in_second_row = Inr ell
         \<and> a2d_values (ell_values ell) = [5, 0]
         \<and> a2d_values (ell_column_indices ell) ! 1 = 1)"
proof -
  have h: "1 < dia_num_rows zero_in_second_row" "0 < length (diagonal_offsets zero_in_second_row)"
    "0 \<le> diagonal_offsets zero_in_second_row ! 0 + int 1"
    "diagonal_offsets zero_in_second_row ! 0 + int 1 < int (dia_num_cols zero_in_second_row)"
    "a2d_values (dia_values zero_in_second_row) ! (0 * pitch (dia_values zero_in_second_row) + 1) = 0"
    by (simp_all add: zero_in_second_row_def)
  have slot: "dia_slot zero_in_second_row 1 0 = (1, 1, 0)"
    by (simp add: dia_slot_def zero_in_second_row_def)
  have f: "dia_num_entries zero_in_second_row \<noteq> 0"
    "pitch (dia_values zero_in_second_row) = dia_num_rows zero_in_second_row"
    "a2d_values (dia_values zero_in_second_row) = [5, 0]"
    "diagonal_offsets zero_in_second_row ! 0 + int 1 = 1"
    "0 * pitch (dia_values zero_in_second_row) + 1 = 1"
    by (simp_all add: zero_in_second_row_def)
  have m: "length (coo_survivors zero_in_second_row) = dia_num_entries zero_in_second_row"
    by (simp add: zero_in_second_row_survivors) (simp add: zero_in_second_row_def)
  then have fits: "length (coo_survivors zero_in_second_row) \<le> dia_num_entries zero_in_second_row"
    by simp
  from convert_dia_coo_triples [OF f(1) fits]
  obtain coo where coo: "convert_dia_coo zero_in_second_row = Inr coo"
    by blast
  from stored_zero_filtered_ell_kept [OF zero_in_second_row_wf h]
  have "(1, 1, 0) \<notin> set (coo_survivors zero_in_second_row)"
    and "(1, 1, 0) \<notin> set (coo_triples coo)"
    and "\<exists>ell. convert_dia_ell zero_in_second_row = Inr ell
         \<and> a2d_values (ell_values ell) = [5, 0]
         \<and> a2d_values (ell_column_indices ell) ! 1 = 1"
    unfolding slot using f coo m by auto
  with zero_in_second_row_wf h(1,2) h(5) slot coo show ?thesis
    unfolding f(5) by blast
qed

text \<open>
  C8, as stated: the COO output is the subsequence of the triples enumerated by \<open>k\<close>
  (\<open>row = k mod pitch\<close>, \<open>diag = k div pitch\<close>) that pass the filter, in the order of
  \<open>k\<close>. It fails for a matrix with two diagonals: the permutation iterator visits
  the slots row by row, so \<open>(0, 1, 3)\<close> of the second diagonal comes before
  \<open>(1, 1, 2)\<close> of the first.
\<close>

theorem coo_k_order_counterexample:
  "dia_wf two_diagonals
   \<and> convert_dia_coo two_diagonals =
       Inr \<lparr>coo_num_rows = 2, coo_num_cols = 2, coo_num_entries = 3,
            coo_row_indices = [0, 0, 1], coo_column_indices = [0, 1, 1], coo_values = [1, 3, 2]\<rparr>
   \<and> filter (is_valid_coo_index 2 2) (k_enumeration two_diagonals) = [(0, 0, 1), (1, 1, 2), (0, 1, 3)]
   \<and> coo_triples \<lparr>coo_num_rows = 2, coo_num_cols = 2, coo_num_entries = 3,
            coo_row_indices = [0, 0, 1], coo_column_indices = [0, 1, 1], coo_values = [1, 3, 2]\<rparr>
       \<noteq> filter (is_valid_coo_index 2 2) (k_enumeration two_diagonals)"
proof -
  have e: "dia_num_entries two_diagonals = 3" "dia_num_rows two_diagonals = 2"
    "dia_num_cols two_diagonals = 2"
    by (simp_all add: two_diagonals_def)
  have h: "dia_num_entries two_diagonals \<noteq> 0"
    "length (coo_survivors two_diagonals) \<le> dia_num_entries two_diagonals"
    unfolding e two_diagonals_survivors by simp_all
  have k: "filter (is_valid_coo_index 2 2) (k_enumeration two_diagonals) =
             [(0, 0, 1), (1, 1, 2), (0, 1, 3)]"
    by (simp add: k_enumeration_def dia_slot_def two_diagonals_def upt_rec is_valid_coo_index_def)
  show ?thesis
    unfolding k convert_dia_coo_fits [OF h] e two_diagonals_survivors
    using two_diagonals_wf by (simp add: coo_triples_def)
qed

text \<open>
  C8, amended: the surviving triples are compacted at the front of the COO arrays in
  row-major order (rows outside, diagonals inside): they are exactly the subsequence
  of the row-by-row enumeration that passes the filter, and they are the same triples,
  as a multiset, as the survivors of the \<open>k\<close> enumeration.
\<close>

theorem coo_compacted_row_major:
  assumes "dia_wf src"
    and "dia_num_entries src \<noteq> 0"
    and "length (coo_survivors src) \<le> dia_num_entries src"
  shows "\<exists>coo. convert_dia_coo src = Inr coo
           \<and> take (length (coo_survivors src)) (coo_triples coo) =
               filter (is_valid_coo_index (int (dia_num_rows src)) (int (dia_num_cols src)))
                 (row_major_enumeration src)
           \<and> mset (filter (is_valid_coo_index (int (dia_num_rows src)) (int (dia_num_cols src)))
                       (row_major_enumeration src)) =
               mset (filter (is_valid_coo_index (int (dia_num_rows src)) (int (dia_num_cols src)))
                       (k_enumeration src))"
proof -
  let ?S = "coo_survivors src"
  let ?pad = "dia_num_entries src - length ?S"
  let ?dst = "\<lparr>coo_num_rows = dia_num_rows src, coo_num_cols = dia_num_cols src,
                coo_num_entries = dia_num_entries src,
                coo_row_indices = map fst ?S @ replicate ?pad 0,
                coo_column_indices = map (fst \<circ> snd) ?S @ replicate ?pad 0,
                coo_values = map (snd \<circ> snd) ?S @ replicate ?pad 0\<rparr>"
  have "convert_dia_coo src = Inr ?dst"
    by (rule convert_dia_coo_fits [OF assms(2,3)])
  moreover have "take (length ?S) (coo_triples ?dst) = ?S"
    unfolding coo_triples_def by (simp only: coo_matrix.simps take_coo_triples_fits)
  then have "take (length ?S) (coo_triples ?dst) =
               filter (is_valid_coo_index (int (dia_num_rows src)) (int (dia_num_cols src)))
                 (row_major_enumeration src)"
    using coo_survivors_row_major [OF assms(1)] by simp
  moreover note survivors_same_triples [OF assms(1), of "int (dia_num_cols src)", symmetric]
  ultimately show ?thesis by blast
qed

theorem coo_compacted_row_major_witness:
  "dia_wf two_diagonals \<and> dia_num_entries two_diagonals \<noteq> 0
   \<and> length (coo_survivors two_diagonals) \<le> dia_num_entries two_diagonals
   \<and> row_major_enumeration two_diagonals = [(0, 0, 1), (0, 1, 3), (1, 1, 2), (1, 2, 0)]
   \<and> (\<exists>coo. convert_dia_coo two_diagonals = Inr coo
         \<and> take 3 (coo_triples coo) = [(0, 0, 1), (0, 1, 3), (1, 1, 2)])"
proof -
  have e: "dia_num_entries two_diagonals = 3" "dia_num_rows two_diagonals = 2"
    "dia_num_cols two_diagonals = 2"
    by (simp_all add: two_diagonals_def)
  have m: "length (coo_survivors two_diagonals) = 3"
    by (simp add: two_diagonals_survivors)
  have h: "dia_num_entries two_diagonals \<noteq> 0"
    "length (coo_survivors two_diagonals) \<le> dia_num_entries two_diagonals"
    unfolding e m by simp_all
  have rm: "row_major_enumeration two_diagonals = [(0, 0, 1), (0, 1, 3), (1, 1, 2), (1, 2, 0)]"
    by (simp add: row_major_enumeration_def dia_slot_def two_diagonals_def upt_rec)
  have keep: "filter (is_valid_coo_index (int 2) (int 2)) [(0, 0, 1), (0, 1, 3), (1, 1, 2), (1, 2, 0::int)]
                = [(0, 0, 1), (0, 1, 3), (1, 1, 2)]"
    by (simp add: is_valid_coo_index_def)
  from coo_compacted_row_major [OF two_diagonals_wf h]
  obtain coo where "convert_dia_coo two_diagonals = Inr coo"
    and "take 3 (coo_triples coo) = [(0, 0, 1), (0, 1, 3), (1, 1, 2)]"
    unfolding e m rm keep by blast
  with two_diagonals_wf h rm show ?thesis by blast
qed

text \<open>
  C10. For a source with \<open>num_entries > 0\<close> (at least as many as pass the filter), the
  COO and CSR destinations keep \<open>num_entries\<close> of the source and arrays of that
  length, also when fewer triples survive; the slots behind the survivors are not
  written by the filter step and still hold the zero of the fresh allocation.
\<close>

theorem unfiltered_capacity_kept:
  assumes "0 < dia_num_entries src"
    and "length (coo_survivors src) \<le> dia_num_entries src"
  shows "\<exists>coo csr. convert_dia_coo src = Inr coo \<and> convert_dia_csr src = Inr csr
           \<and> coo_num_entries coo = dia_num_entries src
           \<and> csr_num_entries csr = dia_num_entries src
           \<and> length (coo_row_indices coo) = dia_num_entries src
           \<and> length (coo_column_indices coo) = dia_num_entries src
           \<and> length (coo_values coo) = dia_num_entries src
           \<and> length (csr_column_indices csr) = dia_num_entries src
           \<and> length (csr_values csr) = dia_num_entries src
           \<and> drop (length (coo_survivors src)) (coo_row_indices coo)
               = replicate (dia_num_entries src - length (coo_survivors src)) 0
           \<and> drop (length (coo_survivors src)) (coo_column_indices coo)
               = replicate (dia_num_entries src - length (coo_survivors src)) 0
           \<and> drop (length (coo_survivors src)) (coo_values coo)
               = replicate (dia_num_entries src - length (coo_survivors src)) 0
           \<and> drop (length (coo_survivors src)) (csr_column_indices csr)
               = replicate (dia_num_entries src - length (coo_survivors src)) 0
           \<and> drop (length (coo_survivors src)) (csr_values csr)
               = replicate (dia_num_entries src - length (coo_survivors src)) 0"
proof -
  from assms(1) have ne: "dia_num_entries src \<noteq> 0"
    by simp
  show ?thesis
    unfolding convert_dia_coo_fits [OF ne assms(2)] convert_dia_csr_fits [OF ne assms(2)]
    using assms(2) by simp
qed

theorem unfiltered_capacity_kept_witness:
  "0 < dia_num_entries (overhang 3)
   \<and> length (coo_survivors (overhang 3)) < dia_num_entries (overhang 3)
   \<and> (\<exists>coo csr. convert_dia_coo (overhang 3) = Inr coo \<and> convert_dia_csr (overhang 3) = Inr csr
         \<and> coo_num_entries coo = 3 \<and> csr_num_entries csr = 3
         \<and> drop 2 (coo_row_indices coo) = [0] \<and> drop 2 (coo_column_indices coo) = [0]
         \<and> drop 2 (coo_values coo) = [0]
         \<and> drop 2 (csr_column_indices csr) = [0] \<and> drop 2 (csr_values csr) = [0])"
proof -
  have e: "dia_num_entries (overhang 3) = 3"
    by (simp add: overhang_def)
  have m: "length (coo_survivors (overhang 3)) = 2"
    by (simp add: overhang_survivors)
  have "0 < dia_num_entries (overhang 3)"
    and "length (coo_survivors (overhang 3)) \<le> dia_num_entries (overhang 3)"
    unfolding e m by simp_all
  from unfiltered_capacity_kept [OF this] show ?thesis
    unfolding e m by (simp add: numeral_2_eq_2) blast
qed

end
